theory Spec2Isabelle
  imports Complex_Main "HOL-Library.Sublist"
begin

section \<open>SlopGate: a shallow embedding of the scoring engine\<close>

text \<open>
  The repository is TypeScript. Its values are embedded as follows.

  \<^item> A JavaScript \<open>number\<close> is a rational (\<^typ>\<open>rat\<close>): every finite double is one, and
    the comparisons of the code are exact on them. Arithmetic is exact in the model; the
    rounding of IEEE doubles, \<open>NaN\<close> and the infinities are not part of it.
  \<^item> A string is a \<^typ>\<open>string\<close>, one \<^typ>\<open>char\<close> per UTF-16 code unit; the model covers
    code units below 256.
  \<^item> An interface is a \<^theory_text>\<open>record\<close> with the fields of the source. The \<open>reason\<close> of a
    \<open>CheckResult\<close> and the \<open>summary\<close> of a \<open>ScoringResult\<close> are rendered text
    (interpolated numbers, \<open>toFixed\<close>); they are left out of the records.
  \<^item> A \<open>for\<close> loop over an array with running totals is a recursive function over the
    list that passes the totals along.
\<close>

subsection \<open>Configuration (src/config.ts)\<close>

record Thresholds =
  warn :: rat
  flag :: rat
  block :: rat

record Weights =
  velocity :: rat
  abandonment :: rat
  shotgun :: rat
  new_account :: rat
  placeholder :: rat
  hallucinated_import :: rat
  docstring_inflation :: rat
  copy_paste :: rat
  generic_description :: rat
  oversized_diff :: rat
  unrelated_changes :: rat
  formatting_only :: rat

record Allowlist =
  users :: "string list"
  bots :: "string list"

record SlopGateConfig =
  thresholds :: Thresholds
  auto_close :: bool
  weights :: Weights
  allowlist :: Allowlist

definition DEFAULT_CONFIG :: SlopGateConfig where
  "DEFAULT_CONFIG =
     \<lparr> thresholds = \<lparr> warn = 30, flag = 60, block = 80 \<rparr>,
       auto_close = False,
       weights = \<lparr> velocity = 80, abandonment = 60, shotgun = 90, new_account = 20,
                   placeholder = 70, hallucinated_import = 90, docstring_inflation = 40,
                   copy_paste = 60, generic_description = 50, oversized_diff = 60,
                   unrelated_changes = 40, formatting_only = 30 \<rparr>,
       allowlist = \<lparr> users = [],
                     bots = [''dependabot[bot]'', ''renovate[bot]'', ''github-actions[bot]''] \<rparr> \<rparr>"

text \<open>The schema of the configuration bounds every weight: \<open>z.number().min(0).max(100)\<close>.\<close>

definition weightKeys :: "(Weights \<Rightarrow> rat) list" where
  "weightKeys = [velocity, abandonment, shotgun, new_account, placeholder,
     hallucinated_import, docstring_inflation, copy_paste, generic_description,
     oversized_diff, unrelated_changes, formatting_only]"

definition weightsInRange :: "Weights \<Rightarrow> bool" where
  "weightsInRange w = list_all (\<lambda>key. 0 \<le> key w \<and> key w \<le> 100) weightKeys"

subsection \<open>The aggregator (src/scoring.ts)\<close>

record CheckResult =
  name :: string
  score :: rat

datatype Verdict = Pass | Warn | Flag | Block

record WeightedCheck = CheckResult +
  weight :: rat
  weightedScore :: rat

record ScoringResult =
  finalScore :: rat
  verdict :: Verdict
  checks :: "CheckResult list"
  weightedChecks :: "WeightedCheck list"

text \<open>The bound every check promises for its score.\<close>

definition scoreInRange :: "CheckResult \<Rightarrow> bool" where
  "scoreInRange c = (0 \<le> score c \<and> score c \<le> 100)"

text \<open>
  \<open>CHECK_WEIGHT_MAP\<close> maps a check name to the key of its weight; the key is the field
  selector of \<^typ>\<open>Weights\<close>. The table is read for its own twelve entries: a name that
  JavaScript would find on \<open>Object.prototype\<close> (\<open>constructor\<close>, \<open>toString\<close>, ...) is
  outside the modelled inputs.
\<close>

definition CHECK_WEIGHT_MAP :: "string \<Rightarrow> (Weights \<Rightarrow> rat) option" where
  "CHECK_WEIGHT_MAP = map_of
     [(''velocity'', velocity),
      (''abandonment'', abandonment),
      (''shotgun'', shotgun),
      (''new_account'', new_account),
      (''placeholder'', placeholder),
      (''hallucinated_import'', hallucinated_import),
      (''docstring_inflation'', docstring_inflation),
      (''copy_paste'', copy_paste),
      (''generic_description'', generic_description),
      (''oversized_diff'', oversized_diff),
      (''unrelated_changes'', unrelated_changes),
      (''formatting_only'', formatting_only)]"

text \<open>\<open>const weight = weightKey ? config.weights[weightKey] : 50\<close>\<close>

definition resolveWeight :: "SlopGateConfig \<Rightarrow> string \<Rightarrow> rat" where
  "resolveWeight config n =
     (case CHECK_WEIGHT_MAP n of Some weightKey \<Rightarrow> weightKey (weights config) | None \<Rightarrow> 50)"

text \<open>\<open>Math.round\<close>: the nearest integer, a half rounded towards plus infinity.\<close>

definition Math_round :: "rat \<Rightarrow> rat" where
  "Math_round x = of_int \<lfloor>x + 1 / 2\<rfloor>"

definition getVerdict :: "rat \<Rightarrow> SlopGateConfig \<Rightarrow> Verdict" where
  "getVerdict s config =
     (if s \<ge> block (thresholds config) then Block
      else if s \<ge> flag (thresholds config) then Flag
      else if s \<ge> warn (thresholds config) then Warn
      else Pass)"

text \<open>
  The loop of \<open>calculateScore\<close>: the state is \<open>(weightedChecks, totalWeight,
  totalWeightedScore)\<close>; a check of weight 0 is skipped by \<open>continue\<close>.
\<close>

fun scoreLoop ::
  "SlopGateConfig \<Rightarrow> CheckResult list \<Rightarrow> WeightedCheck list \<times> rat \<times> rat
     \<Rightarrow> WeightedCheck list \<times> rat \<times> rat" where
  "scoreLoop config [] acc = acc"
| "scoreLoop config (c # cs) (wcs, totalWeight, totalWeightedScore) =
     (let w = resolveWeight config (name c) in
      if w = 0 then scoreLoop config cs (wcs, totalWeight, totalWeightedScore)
      else
        let ws = (score c * w) / 100 in
        scoreLoop config cs
          (wcs @ [\<lparr> name = name c, score = score c, weight = w, weightedScore = ws \<rparr>],
           totalWeight + w, totalWeightedScore + ws))"

text \<open>
  \<open>weightedChecks.sort((a, b) => b.weightedScore - a.weightedScore)\<close> is a stable sort,
  descending in \<open>weightedScore\<close>.
\<close>

definition calculateScore :: "CheckResult list \<Rightarrow> SlopGateConfig \<Rightarrow> ScoringResult" where
  "calculateScore cs config =
     (case scoreLoop config cs ([], 0, 0) of
        (wcs, totalWeight, totalWeightedScore) \<Rightarrow>
          let fs = (if totalWeight > 0
                    then Math_round ((totalWeightedScore / totalWeight) * 100)
                    else 0)
          in \<lparr> finalScore = fs,
               verdict = getVerdict fs config,
               checks = cs,
               weightedChecks = sort_key (\<lambda>wc. - weightedScore wc) wcs \<rparr>)"

text \<open>The checks that enter the totals, and the entry pushed for one of them.\<close>

definition included :: "SlopGateConfig \<Rightarrow> CheckResult list \<Rightarrow> CheckResult list" where
  "included config cs = filter (\<lambda>c. resolveWeight config (name c) \<noteq> 0) cs"

definition weighted :: "SlopGateConfig \<Rightarrow> CheckResult \<Rightarrow> WeightedCheck" where
  "weighted config c =
     \<lparr> name = name c, score = score c, weight = resolveWeight config (name c),
       weightedScore = (score c * resolveWeight config (name c)) / 100 \<rparr>"

subsection \<open>Strings\<close>

text \<open>
  The string operations of the runtime the checks use, on code units below 256:
  \<open>trim\<close> and the class \<open>\s\<close> strip the white space and line terminators of ECMAScript
  (tab, line feed, vertical tab, form feed, carriage return, space, no-break space);
  \<open>toLowerCase\<close> maps \<open>A-Z\<close> and the capital letters of Latin-1.
\<close>

definition isWhiteSpace :: "char \<Rightarrow> bool" where
  "isWhiteSpace c = (of_char c \<in> {9, 10, 11, 12, 13, 32, 160 :: nat})"

definition isLineTerminator :: "char \<Rightarrow> bool" where
  "isLineTerminator c = (of_char c \<in> {10, 13 :: nat})"

definition isDigit :: "char \<Rightarrow> bool" where
  "isDigit c = (let n = (of_char c :: nat) in 48 \<le> n \<and> n \<le> 57)"

definition isUpper :: "char \<Rightarrow> bool" where
  "isUpper c = (let n = (of_char c :: nat) in 65 \<le> n \<and> n \<le> 90)"

definition isLower :: "char \<Rightarrow> bool" where
  "isLower c = (let n = (of_char c :: nat) in 97 \<le> n \<and> n \<le> 122)"

definition isWordChar :: "char \<Rightarrow> bool" where
  "isWordChar c = (isLower c \<or> isUpper c \<or> isDigit c \<or> c = CHR ''_'')"

definition toLowerChar :: "char \<Rightarrow> char" where
  "toLowerChar c =
     (let n = (of_char c :: nat)
      in if (65 \<le> n \<and> n \<le> 90) \<or> (192 \<le> n \<and> n \<le> 222 \<and> n \<noteq> 215)
         then char_of (n + 32) else c)"

definition toLowerCase :: "string \<Rightarrow> string" where
  "toLowerCase s = map toLowerChar s"

definition trim :: "string \<Rightarrow> string" where
  "trim s = rev (dropWhile isWhiteSpace (rev (dropWhile isWhiteSpace s)))"

definition startsWith :: "string \<Rightarrow> string \<Rightarrow> bool" where
  "startsWith s p = (take (length p) s = p)"

fun includesStr :: "string \<Rightarrow> string \<Rightarrow> bool" where
  "includesStr [] sub = (sub = [])"
| "includesStr (x # xs) sub = (startsWith (x # xs) sub \<or> includesStr xs sub)"

text \<open>\<open>s.split(c)\<close> for a separator of one character: never empty, \<open>''.split(c) = ['']\<close>.\<close>

fun splitChar :: "char \<Rightarrow> string \<Rightarrow> string list" where
  "splitChar c [] = [[]]"
| "splitChar c (x # xs) =
     (if x = c then [] # splitChar c xs
      else (case splitChar c xs of [] \<Rightarrow> [[x]] | p # ps \<Rightarrow> (x # p) # ps))"

text \<open>\<open>parts.join(sep)\<close>\<close>

fun join :: "string \<Rightarrow> string list \<Rightarrow> string" where
  "join sep [] = []"
| "join sep [p] = p"
| "join sep (p # q # ps) = p @ sep @ join sep (q # ps)"

text \<open>\<open>(s || '')\<close> for a string that may be \<open>null\<close>.\<close>

definition orEmpty :: "string option \<Rightarrow> string" where
  "orEmpty s = (case s of None \<Rightarrow> [] | Some t \<Rightarrow> t)"

subsection \<open>Regular expressions\<close>

text \<open>
  The patterns of the checks are written in this syntax and run by a backtracking matcher
  with the priorities of ECMAScript: a sequence tries the ends of its first part in
  order, an alternative its left branch first, a greedy star one more iteration before
  stopping, a lazy star the other way round. An iteration of a star that consumes
  nothing is rejected. \<open>Bos\<close> and \<open>Eos\<close> are \<open>^\<close> and \<open>$\<close>; \<open>Bol\<close> and \<open>Eol\<close> are \<open>^\<close> and
  \<open>$\<close> under the flag \<open>m\<close>; \<open>WordB\<close> is \<open>\b\<close>; \<open>Cap\<close> is the capturing group 1 (a group
  whose capture is never read is written without it).

  A state of the matcher is \<open>(capture, previous character, rest of the input)\<close>.
  \<open>ends r st\<close> lists the states in which a match of \<open>r\<close> from \<open>st\<close> can end, the preferred
  one first: the match the runtime reports at this position is the head of the list.
\<close>

datatype regex =
    Eps
  | Lit char
  | Cls "char \<Rightarrow> bool"
  | Seq regex regex
  | Alt regex regex
  | Star regex
  | LazyStar regex
  | Bos
  | Eos
  | Bol
  | Eol
  | WordB
  | Cap regex

type_synonym mstate = "string option \<times> char option \<times> string"

function ends :: "regex \<Rightarrow> mstate \<Rightarrow> mstate list" where
  "ends Eps st = [st]"
| "ends (Lit c) (cap, prev, rest) =
     (case rest of [] \<Rightarrow> [] | x # xs \<Rightarrow> if x = c then [(cap, Some x, xs)] else [])"
| "ends (Cls P) (cap, prev, rest) =
     (case rest of [] \<Rightarrow> [] | x # xs \<Rightarrow> if P x then [(cap, Some x, xs)] else [])"
| "ends (Seq r1 r2) st = concat (map (ends r2) (ends r1 st))"
| "ends (Alt r1 r2) st = ends r1 st @ ends r2 st"
| "ends (Star r) (cap, prev, rest) =
     concat (map (\<lambda>(cap', prev', rest').
                    if length rest' < length rest then ends (Star r) (cap', prev', rest') else [])
                 (ends r (cap, prev, rest)))
     @ [(cap, prev, rest)]"
| "ends (LazyStar r) (cap, prev, rest) =
     (cap, prev, rest) #
     concat (map (\<lambda>(cap', prev', rest').
                    if length rest' < length rest then ends (LazyStar r) (cap', prev', rest') else [])
                 (ends r (cap, prev, rest)))"
| "ends Bos (cap, prev, rest) = (if prev = None then [(cap, prev, rest)] else [])"
| "ends Eos (cap, prev, rest) = (if rest = [] then [(cap, prev, rest)] else [])"
| "ends Bol (cap, prev, rest) =
     (case prev of None \<Rightarrow> [(cap, prev, rest)]
      | Some p \<Rightarrow> if isLineTerminator p then [(cap, prev, rest)] else [])"
| "ends Eol (cap, prev, rest) =
     (case rest of [] \<Rightarrow> [(cap, prev, rest)]
      | x # xs \<Rightarrow> if isLineTerminator x then [(cap, prev, rest)] else [])"
| "ends WordB (cap, prev, rest) =
     (let a = (case prev of None \<Rightarrow> False | Some p \<Rightarrow> isWordChar p);
          b = (case rest of [] \<Rightarrow> False | x # xs \<Rightarrow> isWordChar x)
      in if a \<noteq> b then [(cap, prev, rest)] else [])"
| "ends (Cap r) (cap, prev, rest) =
     map (\<lambda>(cap', prev', rest'). (Some (take (length rest - length rest') rest), prev', rest'))
         (ends r (cap, prev, rest))"
  by pat_completeness auto
termination
  by (relation "measures [\<lambda>(r, st). size r, \<lambda>(r, cap, prev, rest). length rest]") auto

text \<open>
  \<open>regex.test(s)\<close> and the first match of \<open>s.match(regex)\<close>: the match is tried at each
  position from the left. \<open>search\<close> returns the text before the match, the matched text,
  the capture and the rest.
\<close>

fun search ::
  "regex \<Rightarrow> char option \<Rightarrow> string \<Rightarrow> (string \<times> string \<times> string option \<times> string) option" where
  "search r prev rest =
     (case ends r (None, prev, rest) of
        (cap, prev', rest') # _ \<Rightarrow> Some ([], take (length rest - length rest') rest, cap, rest')
      | [] \<Rightarrow>
          (case rest of
             [] \<Rightarrow> None
           | x # xs \<Rightarrow>
               (case search r (Some x) xs of
                  None \<Rightarrow> None
                | Some (before, m, cap, after) \<Rightarrow> Some (x # before, m, cap, after))))"

declare search.simps [simp del]

definition regexTest :: "regex \<Rightarrow> string \<Rightarrow> bool" where
  "regexTest r s = (search r None s \<noteq> None)"

text \<open>
  All matches of a pattern with the flag \<open>g\<close>, from left to right, as \<open>s.match(regex)\<close>
  and a loop over \<open>regex.exec(s)\<close> find them: each with its text and its capture. After
  an empty match the search moves one character on (the patterns run through \<open>exec\<close>
  here never match the empty string).
\<close>

function matchAll :: "regex \<Rightarrow> char option \<Rightarrow> string \<Rightarrow> (string \<times> string option) list" where
  "matchAll r prev rest =
     (case ends r (None, prev, rest) of
        (cap, prev', rest') # _ \<Rightarrow>
          (take (length rest - length rest') rest, cap) #
          (if length rest' < length rest then matchAll r prev' rest'
           else (case rest of [] \<Rightarrow> [] | x # xs \<Rightarrow> matchAll r (Some x) xs))
      | [] \<Rightarrow> (case rest of [] \<Rightarrow> [] | x # xs \<Rightarrow> matchAll r (Some x) xs))"
  by pat_completeness auto
termination
  by (relation "measure (\<lambda>(r, prev, rest). length rest)") auto

declare matchAll.simps [simp del]

text \<open>\<open>s.replace(regex, rep)\<close> with the flag \<open>g\<close>, for a replacement without \<open>$\<close>.\<close>

function replaceAll :: "regex \<Rightarrow> string \<Rightarrow> char option \<Rightarrow> string \<Rightarrow> string" where
  "replaceAll r rep prev rest =
     (case ends r (None, prev, rest) of
        (cap, prev', rest') # _ \<Rightarrow>
          (if length rest' < length rest then rep @ replaceAll r rep prev' rest'
           else (case rest of [] \<Rightarrow> rep | x # xs \<Rightarrow> rep @ x # replaceAll r rep (Some x) xs))
      | [] \<Rightarrow> (case rest of [] \<Rightarrow> [] | x # xs \<Rightarrow> x # replaceAll r rep (Some x) xs))"
  by pat_completeness auto
termination
  by (relation "measure (\<lambda>(r, rep, prev, rest). length rest)") auto

declare replaceAll.simps [simp del]

text \<open>\<open>s.replace(regex, rep)\<close> without the flag \<open>g\<close>: the first match only.\<close>

definition replaceFirst :: "regex \<Rightarrow> string \<Rightarrow> string \<Rightarrow> string" where
  "replaceFirst r rep s =
     (case search r None s of None \<Rightarrow> s | Some (before, m, cap, after) \<Rightarrow> before @ rep @ after)"

text \<open>
  \<open>s.split(regex)\<close> for a pattern without a capturing group: the separator is tried at
  each position \<open>q\<close> after the start \<open>p\<close> of the current piece; an empty match at \<open>p\<close> is
  skipped; the empty string splits into \<open>['']\<close>, or into \<open>[]\<close> when the pattern matches it.
\<close>

function splitLoop :: "regex \<Rightarrow> string \<Rightarrow> char option \<Rightarrow> string \<Rightarrow> string list" where
  "splitLoop r piece prev rest =
     (case rest of
        [] \<Rightarrow> [piece]
      | x # xs \<Rightarrow>
          (case ends r (None, prev, rest) of
             (cap, prev', rest') # _ \<Rightarrow>
               if length rest' < length rest then piece # splitLoop r [] prev' rest'
               else if piece = [] then splitLoop r [x] (Some x) xs
               else piece # splitLoop r [x] (Some x) xs
           | [] \<Rightarrow> splitLoop r (piece @ [x]) (Some x) xs))"
  by pat_completeness auto
termination
  by (relation "measure (\<lambda>(r, piece, prev, rest). length rest)") auto

declare splitLoop.simps [simp del]

definition regexSplit :: "regex \<Rightarrow> string \<Rightarrow> string list" where
  "regexSplit r s =
     (if s = [] then (if ends r (None, None, []) = [] then [[]] else [])
      else splitLoop r [] None s)"

text \<open>Shorthands for writing the patterns.\<close>

definition str :: "string \<Rightarrow> regex" where
  "str s = foldr (\<lambda>c r. Seq (Lit c) r) s Eps"

definition seqs :: "regex list \<Rightarrow> regex" where
  "seqs rs = foldr Seq rs Eps"

fun alts :: "regex list \<Rightarrow> regex" where
  "alts [] = Eps"
| "alts [r] = r"
| "alts (r # rs) = Alt r (alts rs)"

definition Plus :: "regex \<Rightarrow> regex" where
  "Plus r = Seq r (Star r)"

definition Opt :: "regex \<Rightarrow> regex" where
  "Opt r = Alt r Eps"

definition oneOf :: "string \<Rightarrow> regex" where
  "oneOf cs = Cls (\<lambda>c. c \<in> set cs)"

definition noneOf :: "string \<Rightarrow> regex" where
  "noneOf cs = Cls (\<lambda>c. c \<notin> set cs)"

definition dot :: regex where
  "dot = Cls (\<lambda>c. \<not> isLineTerminator c)"

definition ws :: regex where
  "ws = Cls isWhiteSpace"

definition digit :: regex where
  "digit = Cls isDigit"

subsection \<open>The data of a pull request (src/github.ts)\<close>

record User =
  login :: string
  user_type :: string
  created_at :: string

record Head =
  ref :: string
  sha :: string

record Base =
  ref :: string

record PullRequestData =
  number :: rat
  title :: string
  body :: string
  user :: User
  created_at :: string
  changed_files :: rat
  additions :: rat
  deletions :: rat
  head :: Head
  base :: Base

record PRFile =
  filename :: string
  status :: string
  additions :: rat
  deletions :: rat
  changes :: rat
  patch :: "string option"

record ContributorPR =
  number :: rat
  title :: string
  body :: "string option"
  state :: string
  created_at :: string
  closed_at :: "string option"
  merged_at :: "string option"
  repository_url :: string

subsection \<open>Patches and their lines\<close>

definition newline :: char where
  "newline = CHR 0x0A"

definition squote :: char where
  "squote = CHR 0x27"

definition dquote :: char where
  "dquote = CHR 0x22"

definition backtick :: char where
  "backtick = CHR 0x60"

text \<open>
  A literal under the flag \<open>i\<close>: two characters match when their upper case is the same.
\<close>

definition toUpperChar :: "char \<Rightarrow> char" where
  "toUpperChar c =
     (let n = (of_char c :: nat)
      in if (97 \<le> n \<and> n \<le> 122) \<or> (224 \<le> n \<and> n \<le> 254 \<and> n \<noteq> 247)
         then char_of (n - 32) else c)"

definition ci :: "string \<Rightarrow> regex" where
  "ci s = foldr (\<lambda>c r. Seq (Cls (\<lambda>x. toUpperChar x = toUpperChar c)) r) s Eps"

text \<open>\<open>if (!file.patch) continue\<close>: a missing patch and the empty patch are skipped.\<close>

definition truthyPatch :: "PRFile \<Rightarrow> string option" where
  "truthyPatch f = (case patch f of None \<Rightarrow> None | Some p \<Rightarrow> if p = [] then None else Some p)"

text \<open>The added lines of a patch: they start with \<open>+\<close> and not with \<open>+++\<close>.\<close>

definition isAddedLine :: "string \<Rightarrow> bool" where
  "isAddedLine line = (startsWith line ''+'' \<and> \<not> startsWith line ''+++'')"

definition addedLinesOf :: "string \<Rightarrow> string list" where
  "addedLinesOf p = filter isAddedLine (splitChar newline p)"

text \<open>\<open>s.match(regex)\<close> with the flag \<open>g\<close>: the number of matches, 0 for \<open>null\<close>.\<close>

definition countMatches :: "regex \<Rightarrow> string \<Rightarrow> nat" where
  "countMatches r s = length (matchAll r None s)"

subsection \<open>Behavioral checks (src/checks/behavioral.ts)\<close>

text \<open>
  The clock and the parser of \<open>Date\<close> belong to the runtime. A check that reads them takes
  them as arguments: \<open>now\<close> is \<open>Date.now()\<close> in milliseconds, and \<open>parseDate s\<close> is the
  time value of \<open>new Date(s)\<close>, \<open>None\<close> for an invalid date, whose time value \<open>NaN\<close>
  makes every comparison false.
\<close>

definition velocityCheck :: "(string \<Rightarrow> int option) \<Rightarrow> int \<Rightarrow> ContributorPR list \<Rightarrow> CheckResult" where
  "velocityCheck parseDate now recentPRs =
     (let twentyFourHoursAgo = now - 24 * 60 * 60 * 1000;
          recentCount = length (filter
            (\<lambda>pr. case parseDate (ContributorPR.created_at pr) of
                    None \<Rightarrow> False
                  | Some t \<Rightarrow> t \<ge> twentyFourHoursAgo) recentPRs)
      in \<lparr> name = ''velocity'',
           score = (if recentCount \<le> 3 then 0
                    else if recentCount \<le> 5 then 50
                    else if recentCount \<le> 10 then 80
                    else 100) \<rparr>)"

record AbandonmentStats =
  total :: rat
  abandoned :: rat
  rate :: rat

definition abandonmentCheck :: "AbandonmentStats \<Rightarrow> CheckResult" where
  "abandonmentCheck stats =
     (if total stats < 3 then \<lparr> name = ''abandonment'', score = 0 \<rparr>
      else \<lparr> name = ''abandonment'',
             score = (if rate stats \<le> 30 then 0
                      else if rate stats \<le> 50 then 25
                      else if rate stats \<le> 70 then 50
                      else if rate stats \<le> 90 then 80
                      else 100) \<rparr>)"

text \<open>
  The edit distance of \<open>levenshteinSimilarity\<close>. Row 0 of the matrix is \<open>[0, 1, ..., |b|]\<close>;
  row \<open>i\<close> starts with \<open>i\<close>, and the inner loop fills it from left to right out of the
  row above: \<open>fillRow\<close> is that loop, with the rest of the row above (from the diagonal
  cell on) and the cell to the left. \<open>lastRow\<close> is the outer loop and returns row \<open>|a|\<close>.
\<close>

fun fillRow :: "char \<Rightarrow> string \<Rightarrow> nat list \<Rightarrow> nat \<Rightarrow> nat list" where
  "fillRow x (y # ys) (diag # up # ups) left =
     (let cost = (if x = y then 0 else 1);
          v = min (min (up + 1) (left + 1)) (diag + cost)
      in v # fillRow x ys (up # ups) v)"
| "fillRow x ys row left = []"

fun lastRow :: "string \<Rightarrow> string \<Rightarrow> nat list \<Rightarrow> nat \<Rightarrow> nat list" where
  "lastRow [] b row i = row"
| "lastRow (x # xs) b row i = lastRow xs b (i # fillRow x b row i) (Suc i)"

definition levenshteinDistance :: "string \<Rightarrow> string \<Rightarrow> nat" where
  "levenshteinDistance a b = last (lastRow a b [0 ..< Suc (length b)] 1)"

text \<open>
  The edit distance with unit costs for insertion, deletion and substitution, by its
  recurrence on the first characters; \<open>rowFrom rp rb ys\<close> is the row of distances from
  \<open>rp\<close> to \<open>rb\<close> extended by the characters of \<open>ys\<close> one at a time (the texts reversed).
  The matrix of \<open>levenshteinSimilarity\<close> is compared with them below.
\<close>

fun editDistance :: "'a list \<Rightarrow> 'a list \<Rightarrow> nat" where
  "editDistance [] ys = length ys"
| "editDistance (x # xs) [] = Suc (length xs)"
| "editDistance (x # xs) (y # ys) =
     min (min (editDistance xs (y # ys) + 1) (editDistance (x # xs) ys + 1))
         (editDistance xs ys + (if x = y then 0 else 1))"

fun rowFrom :: "string \<Rightarrow> string \<Rightarrow> string \<Rightarrow> nat list" where
  "rowFrom rp rb [] = [editDistance rp rb]"
| "rowFrom rp rb (y # ys) = editDistance rp rb # rowFrom rp (y # rb) ys"

text \<open>\<open>new Set(a.split(/\s+/))\<close> is the set of the pieces; the loop counts the common ones.\<close>

definition jaccardSimilarity :: "string \<Rightarrow> string \<Rightarrow> rat" where
  "jaccardSimilarity a b =
     (let wordsA = set (regexSplit (Plus ws) a);
          wordsB = set (regexSplit (Plus ws) b);
          intersection = card {word \<in> wordsA. word \<in> wordsB};
          union = card wordsA + card wordsB - intersection
      in if union = 0 then 0 else of_nat intersection / of_nat union)"

definition levenshteinSimilarity :: "string \<Rightarrow> string \<Rightarrow> rat" where
  "levenshteinSimilarity a b =
     (if a = b then 1
      else if length a = 0 \<or> length b = 0 then 0
      else if length a > 500 \<or> length b > 500 then jaccardSimilarity a b
      else 1 - of_nat (levenshteinDistance a b) / of_nat (max (length a) (length b)))"

text \<open>The loop of \<open>shotgunCheck\<close> over the other pull requests, with its two counters.\<close>

fun shotgunLoop :: "string \<Rightarrow> string \<Rightarrow> ContributorPR list \<Rightarrow> nat \<times> nat \<Rightarrow> nat \<times> nat" where
  "shotgunLoop currentTitle currentBody [] acc = acc"
| "shotgunLoop currentTitle currentBody (pr # prs) (titleMatches, bodyMatches) =
     (let prTitle = trim (toLowerCase (ContributorPR.title pr));
          prBody = trim (toLowerCase (orEmpty (ContributorPR.body pr)));
          titleMatches' =
            (if prTitle = currentTitle \<or> levenshteinSimilarity prTitle currentTitle > 85 / 100
             then titleMatches + 1 else titleMatches);
          bodyMatches' =
            (if length currentBody > 20 \<and> length prBody > 20
             then (if levenshteinSimilarity prBody currentBody > 80 / 100
                   then bodyMatches + 1 else bodyMatches)
             else bodyMatches)
      in shotgunLoop currentTitle currentBody prs (titleMatches', bodyMatches'))"

definition shotgunCheck :: "PullRequestData \<Rightarrow> ContributorPR list \<Rightarrow> CheckResult" where
  "shotgunCheck currentPR publicPRs =
     (let currentTitle = trim (toLowerCase (PullRequestData.title currentPR));
          currentBody = trim (toLowerCase (PullRequestData.body currentPR));
          otherRepoPRs = filter
            (\<lambda>pr. ContributorPR.number pr \<noteq> PullRequestData.number currentPR) publicPRs
      in if length otherRepoPRs = 0 then \<lparr> name = ''shotgun'', score = 0 \<rparr>
         else
           (case shotgunLoop currentTitle currentBody otherRepoPRs (0, 0) of
              (titleMatches, bodyMatches) \<Rightarrow>
                let totalOtherPRs = length otherRepoPRs;
                    titleMatchRate = (of_nat titleMatches :: rat) / of_nat totalOtherPRs
                in \<lparr> name = ''shotgun'',
                     score = (if titleMatches = 0 \<and> bodyMatches = 0 then 0
                              else if titleMatches \<ge> 3 \<or> bodyMatches \<ge> 2 then 90
                              else if titleMatches \<ge> 2 \<or> titleMatchRate > 1 / 2 then 60
                              else 25) \<rparr>))"

text \<open>
  The matches as the specification counts them, on the lowercased and trimmed texts: a
  title match is an equal title or a similarity above 0.85; a body match needs both
  bodies longer than 20 characters and a similarity above 0.80.
\<close>

definition titleMatch :: "PullRequestData \<Rightarrow> ContributorPR \<Rightarrow> bool" where
  "titleMatch currentPR pr =
     (let t = trim (toLowerCase (ContributorPR.title pr));
          c = trim (toLowerCase (PullRequestData.title currentPR))
      in t = c \<or> levenshteinSimilarity t c > 85 / 100)"

definition bodyMatch :: "PullRequestData \<Rightarrow> ContributorPR \<Rightarrow> bool" where
  "bodyMatch currentPR pr =
     (let b = trim (toLowerCase (orEmpty (ContributorPR.body pr)));
          c = trim (toLowerCase (PullRequestData.body currentPR))
      in length c > 20 \<and> length b > 20 \<and> levenshteinSimilarity b c > 80 / 100)"

text \<open>
  \<open>accountAgeDays\<close> is \<open>Math.floor\<close> of the age in days, \<open>None\<close> when the creation date
  is invalid (\<open>NaN\<close>, which fails every \<open>>=\<close>).
\<close>

definition atLeastDays :: "int option \<Rightarrow> int \<Rightarrow> bool" where
  "atLeastDays age d = (case age of None \<Rightarrow> False | Some a \<Rightarrow> a \<ge> d)"

definition newAccountCheck ::
  "(string \<Rightarrow> int option) \<Rightarrow> int \<Rightarrow> PullRequestData \<Rightarrow> ContributorPR list \<Rightarrow> CheckResult" where
  "newAccountCheck parseDate now pr recentRepoPRs =
     (let accountAgeDays =
            map_option (\<lambda>accountCreated. (now - accountCreated) div (1000 * 60 * 60 * 24))
              (parseDate (User.created_at (user pr)));
          priorPRs = filter
            (\<lambda>rp. ContributorPR.number rp \<noteq> PullRequestData.number pr) recentRepoPRs;
          isFirstPR = (length priorPRs = 0)
      in \<lparr> name = ''new_account'',
           score = (if atLeastDays accountAgeDays 30 then 0
                    else if \<not> isFirstPR then 10
                    else if atLeastDays accountAgeDays 14 then 30
                    else if atLeastDays accountAgeDays 7 then 50
                    else 70) \<rparr>)"

subsection \<open>Pattern checks (src/checks/patterns.ts)\<close>

text \<open>The \<open>body\<close> of \<open>PullRequestData\<close> is a string, for which \<open>pr.body || ''\<close> is \<open>pr.body\<close>.\<close>

definition oversizedDiffCheck :: "PullRequestData \<Rightarrow> CheckResult" where
  "oversizedDiffCheck pr =
     (let totalChanges = PullRequestData.additions pr + PullRequestData.deletions pr;
          descriptionLength = (of_nat (length (trim (PullRequestData.body pr))) :: rat)
      in if totalChanges \<le> 100 then \<lparr> name = ''oversized_diff'', score = 0 \<rparr>
         else
           let expectedMinDescription = min (totalChanges * (1 / 10)) 200;
               isUnderdocumented = (descriptionLength < expectedMinDescription)
           in \<lparr> name = ''oversized_diff'',
                score = (if totalChanges > 2000 \<and> descriptionLength < 50 then 95
                         else if totalChanges > 1000 \<and> descriptionLength < 50 then 80
                         else if totalChanges > 500 \<and> descriptionLength < 50 then 65
                         else if totalChanges > 500 \<and> isUnderdocumented then 40
                         else if totalChanges > 300 \<and> descriptionLength < 30 then 30
                         else 0) \<rparr>)"

text \<open>
  The generic titles of \<open>genericDescriptionCheck\<close>, tested on the lowercased, trimmed
  title, in the order of the source (\<open>fixes?\<close> is \<open>fixe\<close> with an optional \<open>s\<close>).
\<close>

definition genericTitles :: "regex list" where
  "genericTitles =
     [seqs [Bos, str ''fix'', Opt (alts [str ''ed'', str ''es'', str ''ing'']), Plus ws,
            Opt (Seq (str ''a'') (Plus ws)), str ''bug'', Opt (str ''s''), Eos],
      seqs [Bos, str ''update'', Opt (alts [str ''d'', str ''s'']), Plus ws, str ''code'', Eos],
      seqs [Bos, str ''improve'', Opt (alts [str ''d'', str ''s'']), Plus ws,
            Opt (Seq (str ''the'') (Plus ws)), str ''performance'', Eos],
      seqs [Bos, Opt (Seq (str ''minor'') (Plus ws)), str ''fix'', Opt (str ''es''), Eos],
      seqs [Bos, str ''update'', Opt (alts [str ''d'', str ''s'']), Eos],
      seqs [Bos, str ''improve'', Opt (str ''ment''), Opt (str ''s''), Eos],
      seqs [Bos, str ''refactor'', Opt (alts [str ''ed'', str ''ing'']), Eos],
      seqs [Bos, str ''clean'', Star ws, str ''up'', Eos],
      seqs [Bos, str ''enhance'', Opt (str ''ment''), Opt (str ''s''), Eos],
      seqs [Bos, str ''optimization'', Eos],
      seqs [Bos, str ''bug'', Star ws, str ''fix'', Eos],
      seqs [Bos, str ''patch'', Eos],
      seqs [Bos, str ''changes'', Eos],
      seqs [Bos, str ''update'', Opt (str ''s''),
            Opt (seqs [Plus ws, Opt (Seq (str ''to'') (Plus ws)),
                       Opt (Seq (str ''the'') (Plus ws)), str ''code'']), Eos],
      seqs [Bos, str ''fix'', Opt (str ''ed''), Plus ws, Opt (Seq (str ''some'') (Plus ws)),
            alts [Seq (str ''issue'') (Opt (str ''s'')), Seq (str ''problem'') (Opt (str ''s'')),
                  Seq (str ''error'') (Opt (str ''s''))], Eos],
      seqs [Bos, str ''code'', Plus ws,
            alts [str ''improvement'', str ''cleanup'', Seq (str ''refactor'') (Opt (str ''ing''))],
            Eos],
      seqs [Bos, str ''improve'', Opt (str ''d''), Plus ws, str ''code'', Plus ws,
            str ''quality'', Eos],
      seqs [Bos, str ''general'', Plus ws,
            alts [Seq (str ''improvement'') (Opt (str ''s'')), str ''fixes'',
                  Seq (str ''update'') (Opt (str ''s''))], Eos],
      seqs [Bos, str ''misc'', Opt (str ''ellaneous''), Plus ws,
            alts [str ''fixes'', str ''changes'', Seq (str ''update'') (Opt (str ''s''))], Eos],
      seqs [Bos, str ''small'', Plus ws,
            alts [Seq (str ''fixe'') (Opt (str ''s'')), Seq (str ''change'') (Opt (str ''s'')),
                  Seq (str ''update'') (Opt (str ''s''))], Eos],
      seqs [Bos, str ''various'', Plus ws,
            alts [Seq (str ''fixe'') (Opt (str ''s'')), Seq (str ''improvement'') (Opt (str ''s'')),
                  Seq (str ''update'') (Opt (str ''s''))], Eos]]"

definition aiDescriptionPatterns :: "regex list" where
  "aiDescriptionPatterns =
     [seqs [str ''this '', alts [str ''pr'', str ''pull request'', str ''commit''], str '' '',
            alts [str ''fixes'', str ''improves'', str ''updates'', str ''enhances'',
                  str ''refactors'']],
      seqs [alts [str ''improved'', str ''enhanced'', str ''optimized''], str '' '',
            Opt (str ''the ''), alts [str ''overall'', str ''code''], str '' '',
            alts [str ''quality'', str ''performance'', str ''readability'']],
      seqs [str ''made '', Opt (str ''the ''), alts [str ''following'', str ''these'', str ''some''],
            str '' '', alts [str ''changes'', str ''improvements'', str ''updates'']],
      seqs [str ''this '', alts [str ''change'', str ''update'', str ''improvement''], str '' '',
            alts [str ''will'', str ''should'', str ''aims to'']]]"

definition genericDescriptionCheck :: "PullRequestData \<Rightarrow> CheckResult" where
  "genericDescriptionCheck pr =
     (let t = trim (toLowerCase (PullRequestData.title pr));
          b = trim (toLowerCase (PullRequestData.body pr));
          isGenericTitle = list_ex (\<lambda>pattern. regexTest pattern t) genericTitles;
          isTitleShort = (length t < 15);
          hasNoBody = (length b < 20);
          hasAIDescription = list_ex (\<lambda>pattern. regexTest pattern b) aiDescriptionPatterns
      in \<lparr> name = ''generic_description'',
           score = (if isGenericTitle \<and> hasNoBody then 85
                    else if isGenericTitle \<and> hasAIDescription then 70
                    else if isGenericTitle then 50
                    else if isTitleShort \<and> hasNoBody then 35
                    else if hasAIDescription \<and> \<not> isGenericTitle then 20
                    else 0) \<rparr>)"

text \<open>
  \<open>unrelatedChangesCheck\<close>: \<open>directories\<close> is the set of the first path segments, \<open>.\<close>
  for a file at the root. (The second-level directories are computed for the log only.)
\<close>

definition topDirOf :: "string \<Rightarrow> string" where
  "topDirOf fname =
     (let parts = splitChar CHR ''/'' fname
      in if length parts > 1 then (case parts of [] \<Rightarrow> [] | p # _ \<Rightarrow> p) else ''.'')"

definition unrelatedChangesCheck :: "PRFile list \<Rightarrow> CheckResult" where
  "unrelatedChangesCheck files =
     (if length files \<le> 1 then \<lparr> name = ''unrelated_changes'', score = 0 \<rparr>
      else
        let directories = set (map (\<lambda>f. topDirOf (filename f)) files);
            dirCount = card directories;
            hasTests = list_ex (\<lambda>f. includesStr (filename f) ''test''
                                  \<or> includesStr (filename f) ''spec'') files;
            hasConfig = list_ex (\<lambda>f. includesStr (filename f) ''config''
                                   \<or> includesStr (filename f) ''package.json''
                                   \<or> includesStr (filename f) ''.yml''
                                   \<or> includesStr (filename f) ''.yaml''
                                   \<or> includesStr (filename f) ''.toml'') files;
            hasDocs = list_ex (\<lambda>f. includesStr (filename f) ''README''
                                 \<or> includesStr (filename f) ''doc''
                                 \<or> includesStr (filename f) ''.md'') files;
            likelyRelated = (hasTests \<or> hasConfig \<or> hasDocs)
        in \<lparr> name = ''unrelated_changes'',
             score = (if dirCount \<le> 3 then 0
                      else if dirCount \<le> 5 \<and> likelyRelated then 10
                      else if dirCount \<le> 5 then 35
                      else if dirCount \<le> 8 then 60
                      else 85) \<rparr>)"

text \<open>
  \<open>formattingOnlyCheck\<close>. A removed line followed by an added line is a pair, and the
  pair is a formatting change when the two texts are equal after trimming, or without
  their white space, or with every quote character replaced by a double quote, or after
  trimming without a final \<open>;\<close> or \<open>,\<close>.
\<close>

definition isDiffMetadata :: "string \<Rightarrow> bool" where
  "isDiffMetadata line =
     (startsWith line ''@@'' \<or> startsWith line ''diff'' \<or> startsWith line ''index''
      \<or> startsWith line ''---'' \<or> startsWith line ''+++'')"

definition isFormattingPair :: "string \<Rightarrow> string \<Rightarrow> bool" where
  "isFormattingPair removed added =
     (trim removed = trim added
      \<or> replaceAll ws [] None removed = replaceAll ws [] None added
      \<or> replaceAll (oneOf [dquote, squote, backtick]) [dquote] None removed
          = replaceAll (oneOf [dquote, squote, backtick]) [dquote] None added
      \<or> replaceFirst (seqs [oneOf '';,'', Star ws, Eos]) [] (trim removed)
          = replaceFirst (seqs [oneOf '';,'', Star ws, Eos]) [] (trim added))"

text \<open>
  A line on one side only (\<open>+\<close> or \<open>-\<close>) counts as formatting when it is blank or a single
  brace; a line that is neither added nor removed counts as nothing.
\<close>

definition singleSided :: "string \<Rightarrow> nat \<times> nat \<Rightarrow> nat \<times> nat" where
  "singleSided line acc =
     (case acc of
        (formattingOnlyLines, substantiveLines) \<Rightarrow>
          if startsWith line ''+'' \<or> startsWith line ''-''
          then (let content = trim (drop 1 line)
                in if content = [] \<or> content = ''{'' \<or> content = ''}''
                   then (formattingOnlyLines + 1, substantiveLines)
                   else (formattingOnlyLines, substantiveLines + 1))
          else (formattingOnlyLines, substantiveLines))"

text \<open>
  The \<open>while\<close> loop over the lines of one patch, with \<open>formattingOnlyLines\<close> and
  \<open>substantiveLines\<close>: a pair advances the index by 2, every other line by 1.
\<close>

fun formattingLines :: "string list \<Rightarrow> nat \<times> nat \<Rightarrow> nat \<times> nat" where
  "formattingLines [] acc = acc"
| "formattingLines (line # lines) (formattingOnlyLines, substantiveLines) =
     (if isDiffMetadata line then formattingLines lines (formattingOnlyLines, substantiveLines)
      else
        (case lines of
           [] \<Rightarrow> formattingLines lines (singleSided line (formattingOnlyLines, substantiveLines))
         | next # lines' \<Rightarrow>
             if startsWith line ''-'' \<and> startsWith next ''+''
             then (if isFormattingPair (drop 1 line) (drop 1 next)
                   then formattingLines lines' (formattingOnlyLines + 2, substantiveLines)
                   else formattingLines lines' (formattingOnlyLines, substantiveLines + 2))
             else formattingLines lines
                    (singleSided line (formattingOnlyLines, substantiveLines))))"

fun formattingLoop :: "PRFile list \<Rightarrow> nat \<times> nat \<Rightarrow> nat \<times> nat" where
  "formattingLoop [] acc = acc"
| "formattingLoop (f # fs) acc =
     (case truthyPatch f of
        None \<Rightarrow> formattingLoop fs acc
      | Some p \<Rightarrow> formattingLoop fs (formattingLines (splitChar newline p) acc))"

definition claimsKeywords :: regex where
  "claimsKeywords = alts
     [str ''fix'', str ''feat'', str ''add'', str ''implement'', str ''resolve'', str ''bug'',
      str ''issue'', str ''feature'', str ''enhance'', str ''refactor'', str ''optimize'']"

definition formattingOnlyCheck :: "PullRequestData \<Rightarrow> PRFile list \<Rightarrow> CheckResult" where
  "formattingOnlyCheck pr files =
     (case formattingLoop files (0, 0) of
        (formattingOnlyLines, substantiveLines) \<Rightarrow>
          let totalChangedLines = formattingOnlyLines + substantiveLines
          in if totalChangedLines < 5 then \<lparr> name = ''formatting_only'', score = 0 \<rparr>
             else
               let formattingRate = (of_nat formattingOnlyLines :: rat) / of_nat totalChangedLines;
                   titleLower = toLowerCase (PullRequestData.title pr);
                   claimsSubstantiveWork = regexTest claimsKeywords titleLower
               in \<lparr> name = ''formatting_only'',
                    score = (if formattingRate < 1 / 2 then 0
                             else if formattingRate < 8 / 10
                             then (if claimsSubstantiveWork then 30 else 10)
                             else if formattingRate < 95 / 100
                             then (if claimsSubstantiveWork then 65 else 25)
                             else (if claimsSubstantiveWork then 90 else 35)) \<rparr>)"

subsection \<open>Content checks (src/checks/content.ts)\<close>

text \<open>The patterns of \<open>placeholderCheck\<close> (\<open>emptyReturn\<close> is declared and never used).\<close>

definition emptyFunction :: regex where
  "emptyFunction = alts
     [seqs [Lit CHR ''{'', Star ws, Lit CHR ''}''],
      seqs [Lit CHR ''{'', Star ws, str ''//'', Star ws, Lit CHR ''}''],
      seqs [Lit CHR ''{'', Star ws, str ''/*'', Star ws, str ''*/'', Star ws, Lit CHR ''}'']]"

definition todoWithoutContext :: regex where
  "todoWithoutContext = seqs [str ''//'', Star ws, str ''TODO'', Star ws, Eol]"

definition passStatement :: regex where
  "passStatement = seqs [Bol, Lit CHR ''+'', Star ws, str ''pass'', Star ws, Eol]"

definition placeholderNames :: regex where
  "placeholderNames = seqs
     [WordB,
      alts [ci ''foo'', ci ''bar'', ci ''baz'', Seq (ci ''temp'') (Star digit),
            Seq (ci ''test'') (Plus digit), ci ''xxx'', ci ''yyy'', ci ''zzz'',
            ci ''placeholder'', ci ''dummy'', ci ''sample'', Seq (ci ''example'') (Plus digit)],
      WordB]"

definition notImplemented :: regex where
  "notImplemented = seqs
     [ci ''throw'', Plus ws, ci ''new'', Plus ws, Alt (ci ''Error'') (ci ''NotImplementedError''),
      Star ws, Lit CHR ''('', Star ws, oneOf [squote, dquote, backtick],
      alts [seqs [ci ''not'', Plus ws, ci ''implemented''], ci ''todo'', ci ''fixme'']]"

text \<open>
  The body of the loop over the files, for one patch: the issues it adds to
  \<open>totalIssueCount\<close> and the lines it adds to \<open>totalLinesChanged\<close>.
\<close>

definition placeholderIssues :: "string \<Rightarrow> nat \<times> nat" where
  "placeholderIssues p =
     (let addedLines = addedLinesOf p;
          addedContent = join [newline] addedLines;
          emptyFunctions = countMatches emptyFunction addedContent;
          todos = countMatches todoWithoutContext addedContent;
          passStmts = countMatches passStatement addedContent;
          placeholders = countMatches placeholderNames addedContent;
          notImpl = countMatches notImplemented addedContent
      in ((if emptyFunctions > 0 then emptyFunctions else 0)
          + (if todos > 0 then todos else 0)
          + (if passStmts > 0 then passStmts else 0)
          + (if placeholders > 2 then placeholders else 0)
          + (if notImpl > 0 then notImpl else 0),
          length addedLines))"

fun placeholderLoop :: "PRFile list \<Rightarrow> nat \<times> nat \<Rightarrow> nat \<times> nat" where
  "placeholderLoop [] acc = acc"
| "placeholderLoop (f # fs) (totalIssueCount, totalLinesChanged) =
     (case truthyPatch f of
        None \<Rightarrow> placeholderLoop fs (totalIssueCount, totalLinesChanged)
      | Some p \<Rightarrow>
          (case placeholderIssues p of
             (issues, added) \<Rightarrow>
               placeholderLoop fs (totalIssueCount + issues, totalLinesChanged + added)))"

definition placeholderCheck :: "PRFile list \<Rightarrow> CheckResult" where
  "placeholderCheck files =
     (case placeholderLoop files (0, 0) of
        (totalIssueCount, totalLinesChanged) \<Rightarrow>
          if totalLinesChanged = 0 then \<lparr> name = ''placeholder'', score = 0 \<rparr>
          else
            let issueRate = (of_nat totalIssueCount :: rat) / of_nat (max totalLinesChanged 1)
            in \<lparr> name = ''placeholder'',
                 score = (if totalIssueCount = 0 then 0
                          else if issueRate < 2 / 100 then 15
                          else if issueRate < 5 / 100 then 40
                          else if issueRate < 1 / 10 then 70
                          else 95) \<rparr>)"

text \<open>The four patterns of \<open>hallucinatedImportCheck\<close>, all under the flags \<open>g\<close> and \<open>m\<close>.\<close>

definition quoteChar :: regex where
  "quoteChar = oneOf [squote, dquote]"

definition moduleSpecifier :: regex where
  "moduleSpecifier =
     Cap (Seq (noneOf [squote, dquote, CHR ''.'', CHR ''/'']) (Star (noneOf [squote, dquote])))"

definition importPatterns :: "regex list" where
  "importPatterns =
     [seqs [Bol, Lit CHR ''+'', Star dot, WordB, str ''from'', Plus ws,
            quoteChar, moduleSpecifier, quoteChar],
      seqs [Bol, Lit CHR ''+'', Star dot, WordB, str ''require'', Star ws, Lit CHR ''('', Star ws,
            quoteChar, moduleSpecifier, quoteChar, Star ws, Lit CHR '')''],
      seqs [Bol, Lit CHR ''+'', Star ws, str ''import'', Plus ws,
            quoteChar, moduleSpecifier, quoteChar],
      seqs [Bol, Lit CHR ''+'', Star ws, Alt (str ''import'') (str ''from''), Plus ws,
            Cap (Seq (Cls (\<lambda>c. isLower c \<or> isUpper c \<or> c = CHR ''_'')) (Star (Cls isWordChar))),
            alts [ws, Eol, Lit CHR ''.'']]]"

definition builtins :: "string list" where
  "builtins =
     [''fs'', ''path'', ''os'', ''util'', ''http'', ''https'', ''crypto'', ''stream'',
      ''events'', ''buffer'', ''child_process'', ''cluster'', ''dgram'', ''dns'',
      ''net'', ''readline'', ''tls'', ''url'', ''zlib'', ''assert'', ''querystring'',
      ''string_decoder'', ''timers'', ''tty'', ''v8'', ''vm'', ''worker_threads'',
      ''perf_hooks'', ''async_hooks'', ''node:fs'', ''node:path'', ''node:os'',
      ''node:util'', ''node:http'', ''node:https'', ''node:crypto'', ''node:stream'',
      ''node:events'', ''node:buffer'', ''node:child_process'', ''node:url'',
      ''node:test'', ''node:assert'',
      ''os'', ''sys'', ''json'', ''math'', ''time'', ''datetime'', ''re'', ''typing'',
      ''collections'', ''itertools'', ''functools'', ''pathlib'', ''io'', ''abc'',
      ''logging'', ''unittest'', ''argparse'', ''hashlib'', ''base64'', ''copy'',
      ''dataclasses'', ''enum'', ''contextlib'', ''threading'', ''subprocess'',
      ''tempfile'', ''shutil'', ''glob'', ''random'', ''string'', ''textwrap'']"

text \<open>
  \<open>moduleName.startsWith('@') ? moduleName.split('/').slice(0, 2).join('/')
  : moduleName.split('/')[0]\<close>
\<close>

definition baseModuleOf :: "string \<Rightarrow> string" where
  "baseModuleOf moduleName =
     (if startsWith moduleName ''@'' then join ''/'' (take 2 (splitChar CHR ''/'' moduleName))
      else (case splitChar CHR ''/'' moduleName of [] \<Rightarrow> [] | p # _ \<Rightarrow> p))"

text \<open>
  The three nested loops: over the matches of one pattern (\<open>while ((match =
  regex.exec(file.patch)) !== null)\<close>), over the patterns, over the files. The state is
  \<open>totalImports\<close> and the list \<open>suspiciousImports\<close> of \<open>(file, module)\<close>.
\<close>

fun execLoop ::
  "string \<Rightarrow> string set \<Rightarrow> (string \<times> string option) list
     \<Rightarrow> nat \<times> (string \<times> string) list \<Rightarrow> nat \<times> (string \<times> string) list" where
  "execLoop fname projectDeps [] acc = acc"
| "execLoop fname projectDeps ((m, cap) # ms) (totalImports, suspiciousImports) =
     (let moduleName = orEmpty cap;
          baseModule = baseModuleOf moduleName
      in execLoop fname projectDeps ms
           (totalImports + 1,
            if baseModule \<notin> set builtins \<and> baseModule \<notin> projectDeps
            then suspiciousImports @ [(fname, baseModule)] else suspiciousImports))"

fun patternLoop ::
  "string \<Rightarrow> string \<Rightarrow> string set \<Rightarrow> regex list
     \<Rightarrow> nat \<times> (string \<times> string) list \<Rightarrow> nat \<times> (string \<times> string) list" where
  "patternLoop fname p projectDeps [] acc = acc"
| "patternLoop fname p projectDeps (pattern # patterns) acc =
     patternLoop fname p projectDeps patterns
       (execLoop fname projectDeps (matchAll pattern None p) acc)"

fun importLoop ::
  "PRFile list \<Rightarrow> string set
     \<Rightarrow> nat \<times> (string \<times> string) list \<Rightarrow> nat \<times> (string \<times> string) list" where
  "importLoop [] projectDeps acc = acc"
| "importLoop (f # fs) projectDeps acc =
     (case truthyPatch f of
        None \<Rightarrow> importLoop fs projectDeps acc
      | Some p \<Rightarrow>
          importLoop fs projectDeps (patternLoop (filename f) p projectDeps importPatterns acc))"

definition hallucinatedImportCheck :: "PRFile list \<Rightarrow> string set \<Rightarrow> CheckResult" where
  "hallucinatedImportCheck files projectDeps =
     (case importLoop files projectDeps (0, []) of
        (totalImports, suspiciousImports) \<Rightarrow>
          if totalImports = 0 then \<lparr> name = ''hallucinated_import'', score = 0 \<rparr>
          else
            let suspiciousRate = (of_nat (length suspiciousImports) :: rat) / of_nat totalImports
            in \<lparr> name = ''hallucinated_import'',
                 score = (if length suspiciousImports = 0 then 0
                          else if length suspiciousImports = 1 \<and> suspiciousRate < 2 / 10 then 25
                          else if suspiciousRate < 3 / 10 then 55
                          else 90) \<rparr>)"

text \<open>The patterns of \<open>docstringInflationCheck\<close>, tested on one added line each.\<close>

definition singleLineComment :: regex where
  "singleLineComment = seqs
     [Bos, Lit CHR ''+'', Star ws, alts [str ''//'', str ''#'', str ''--'', str '';''], ws]"

definition blockCommentStart :: regex where
  "blockCommentStart = seqs
     [Bos, Lit CHR ''+'', Star ws,
      alts [str ''/*'', str ''*'', str (replicate 3 dquote), str (replicate 3 squote),
            str ''<!--'']]"

definition blockCommentEnd :: regex where
  "blockCommentEnd = seqs
     [alts [str ''*/'', str (replicate 3 dquote), str (replicate 3 squote), str ''-->''],
      Star ws, Eos]"

definition docstringLine :: regex where
  "docstringLine = seqs [Bos, Lit CHR ''+'', Star ws, Lit CHR ''*'', ws]"

definition emptyLine :: regex where
  "emptyLine = seqs [Bos, Lit CHR ''+'', Star ws, Eos]"

fun docstringLines :: "string list \<Rightarrow> nat \<times> nat \<Rightarrow> nat \<times> nat" where
  "docstringLines [] acc = acc"
| "docstringLines (line # lines) (totalCommentLines, totalCodeLines) =
     (if regexTest emptyLine line then docstringLines lines (totalCommentLines, totalCodeLines)
      else if regexTest singleLineComment line \<or> regexTest blockCommentStart line
              \<or> regexTest blockCommentEnd line \<or> regexTest docstringLine line
      then docstringLines lines (totalCommentLines + 1, totalCodeLines)
      else docstringLines lines (totalCommentLines, totalCodeLines + 1))"

fun docstringLoop :: "PRFile list \<Rightarrow> nat \<times> nat \<Rightarrow> nat \<times> nat" where
  "docstringLoop [] acc = acc"
| "docstringLoop (f # fs) acc =
     (case truthyPatch f of
        None \<Rightarrow> docstringLoop fs acc
      | Some p \<Rightarrow> docstringLoop fs (docstringLines (addedLinesOf p) acc))"

definition docstringInflationCheck :: "PRFile list \<Rightarrow> CheckResult" where
  "docstringInflationCheck files =
     (case docstringLoop files (0, 0) of
        (totalCommentLines, totalCodeLines) \<Rightarrow>
          let totalLines = totalCommentLines + totalCodeLines
          in if totalLines < 10 then \<lparr> name = ''docstring_inflation'', score = 0 \<rparr>
             else
               let commentRatio = (of_nat totalCommentLines :: rat) / of_nat totalLines
               in \<lparr> name = ''docstring_inflation'',
                    score = (if commentRatio \<le> 3 / 10 then 0
                             else if commentRatio \<le> 45 / 100 then 15
                             else if commentRatio \<le> 6 / 10 then 45
                             else if commentRatio \<le> 75 / 100 then 75
                             else 95) \<rparr>)"

text \<open>
  \<open>normalizeCode\<close>: the line comments, the block comments and the hash comments are
  removed, each run of white space becomes one space, and the result is trimmed.
\<close>

definition normalizeCode :: "string \<Rightarrow> string" where
  "normalizeCode code =
     trim
       (replaceAll (Plus ws) '' '' None
         (replaceAll (seqs [Lit CHR ''#'', Star dot, Eol]) [] None
           (replaceAll (seqs [str ''/*'', LazyStar (Cls (\<lambda>c. True)), str ''*/'']) [] None
             (replaceAll (seqs [str ''//'', Star dot, Eol]) [] None code))))"

record CodeBlock =
  blockFile :: string
  blockText :: string
  lineCount :: nat

text \<open>
  The loop over the lines of one patch, with \<open>currentBlock\<close> and \<open>codeBlocks\<close>: an added
  line that is not blank after trimming joins the current block, a line that is not an
  added line closes it, and the block open at the end is closed after the loop. A closed
  block is kept when it has at least 4 lines.
\<close>

definition pushBlock :: "string \<Rightarrow> string list \<Rightarrow> CodeBlock list \<Rightarrow> CodeBlock list" where
  "pushBlock fname currentBlock codeBlocks =
     (if length currentBlock \<ge> 4
      then codeBlocks @ [\<lparr> blockFile = fname, blockText = join [newline] currentBlock,
                           lineCount = length currentBlock \<rparr>]
      else codeBlocks)"

fun blockLoop :: "string \<Rightarrow> string list \<Rightarrow> string list \<Rightarrow> CodeBlock list \<Rightarrow> CodeBlock list" where
  "blockLoop fname [] currentBlock codeBlocks = pushBlock fname currentBlock codeBlocks"
| "blockLoop fname (line # lines) currentBlock codeBlocks =
     (if isAddedLine line
      then (let cleanLine = trim (drop 1 line)
            in if length cleanLine > 0
               then blockLoop fname lines (currentBlock @ [cleanLine]) codeBlocks
               else blockLoop fname lines currentBlock codeBlocks)
      else blockLoop fname lines [] (pushBlock fname currentBlock codeBlocks))"

fun collectBlocks :: "PRFile list \<Rightarrow> CodeBlock list \<Rightarrow> CodeBlock list" where
  "collectBlocks [] codeBlocks = codeBlocks"
| "collectBlocks (f # fs) codeBlocks =
     (case truthyPatch f of
        None \<Rightarrow> collectBlocks fs codeBlocks
      | Some p \<Rightarrow> collectBlocks fs (blockLoop (filename f) (splitChar newline p) [] codeBlocks))"

text \<open>
  The comparison of every pair \<open>i < j\<close> of blocks, with \<open>duplicateCount\<close> and
  \<open>duplicatedLines\<close>: \<open>pairLoop a\<close> is the inner loop for the block \<open>a\<close> over the blocks
  after it.
\<close>

fun pairLoop :: "CodeBlock \<Rightarrow> CodeBlock list \<Rightarrow> nat \<times> nat \<Rightarrow> nat \<times> nat" where
  "pairLoop a [] acc = acc"
| "pairLoop a (b # bs) (duplicateCount, duplicatedLines) =
     (if (of_nat (min (lineCount a) (lineCount b)) :: rat)
           < of_nat (max (lineCount a) (lineCount b)) * (7 / 10)
      then pairLoop a bs (duplicateCount, duplicatedLines)
      else
        let normalizedA = normalizeCode (blockText a);
            normalizedB = normalizeCode (blockText b)
        in if normalizedA = normalizedB \<and> length normalizedA > 50
           then pairLoop a bs
                  (duplicateCount + 1, duplicatedLines + min (lineCount a) (lineCount b))
           else pairLoop a bs (duplicateCount, duplicatedLines))"

fun blockPairs :: "CodeBlock list \<Rightarrow> nat \<times> nat \<Rightarrow> nat \<times> nat" where
  "blockPairs [] acc = acc"
| "blockPairs (a # bs) acc = blockPairs bs (pairLoop a bs acc)"

definition copyPasteStats :: "PRFile list \<Rightarrow> nat \<times> nat" where
  "copyPasteStats files = blockPairs (collectBlocks files []) (0, 0)"

definition copyPasteCheck :: "PRFile list \<Rightarrow> CheckResult" where
  "copyPasteCheck files =
     (case copyPasteStats files of
        (duplicateCount, duplicatedLines) \<Rightarrow>
          \<lparr> name = ''copy_paste'',
            score = (if duplicateCount = 0 then 0
                     else if duplicateCount = 1 \<and> duplicatedLines < 15 then 20
                     else if duplicateCount \<le> 3 then 50
                     else 85) \<rparr>)"

subsection \<open>Dependency parsers (src/checks/content.ts)\<close>

text \<open>
  The operations that raise are part of the model: a parser returns \<open>Inl\<close> of the
  exception that leaves it, or \<open>Inr\<close> of its set. \<open>JSON.parse\<close> belongs to the runtime and
  is an argument of the parser of \<open>package.json\<close>: \<open>JSON_parse s\<close> is the parsed value, or
  \<open>None\<close> when \<open>JSON.parse\<close> throws a \<open>SyntaxError\<close>. An object is the list of its own
  properties.
\<close>

datatype json =
    JNull
  | JBool bool
  | JNumber rat
  | JString string
  | JArray "json list"
  | JObject "(string \<times> json) list"

datatype exn = SyntaxError | TypeError

text \<open>\<open>pkg.key\<close>: a \<open>TypeError\<close> on \<open>null\<close>; \<open>None\<close> is \<open>undefined\<close>.\<close>

definition getProperty :: "json \<Rightarrow> string \<Rightarrow> exn + json option" where
  "getProperty v key =
     (case v of
        JNull \<Rightarrow> Inl TypeError
      | JObject kvs \<Rightarrow> Inr (map_of kvs key)
      | _ \<Rightarrow> Inr None)"

definition truthy :: "json \<Rightarrow> bool" where
  "truthy v =
     (case v of
        JNull \<Rightarrow> False
      | JBool b \<Rightarrow> b
      | JNumber n \<Rightarrow> n \<noteq> 0
      | JString t \<Rightarrow> t \<noteq> []
      | _ \<Rightarrow> True)"

text \<open>The decimal digits of an index, for the keys of an array and of a string.\<close>

fun showNat :: "nat \<Rightarrow> string" where
  "showNat n =
     (if n < 10 then [char_of (48 + n)]
      else showNat (n div 10) @ [char_of (48 + n mod 10)])"

declare showNat.simps [simp del]

text \<open>\<open>Object.keys(v)\<close>: a \<open>TypeError\<close> on \<open>null\<close>.\<close>

definition objectKeys :: "json \<Rightarrow> exn + string list" where
  "objectKeys v =
     (case v of
        JNull \<Rightarrow> Inl TypeError
      | JObject kvs \<Rightarrow> Inr (map fst kvs)
      | JArray xs \<Rightarrow> Inr (map showNat [0 ..< length xs])
      | JString t \<Rightarrow> Inr (map showNat [0 ..< length t])
      | _ \<Rightarrow> Inr [])"

text \<open>
  A statement of the \<open>try\<close> block runs on the set \<open>deps\<close> and returns the exception it
  raises, if any, with the set as it is then. \<open>addKeys pkg key\<close> is
  \<open>if (pkg.key) { Object.keys(pkg.key).forEach((d) => deps.add(d)) }\<close>.
\<close>

definition addKeys :: "json \<Rightarrow> string \<Rightarrow> string set \<Rightarrow> exn option \<times> string set" where
  "addKeys pkg key deps =
     (case getProperty pkg key of
        Inl e \<Rightarrow> (Some e, deps)
      | Inr None \<Rightarrow> (None, deps)
      | Inr (Some v) \<Rightarrow>
          if truthy v
          then (case objectKeys v of
                  Inl e \<Rightarrow> (Some e, deps)
                | Inr ks \<Rightarrow> (None, deps \<union> set ks))
          else (None, deps))"

definition andThen ::
  "exn option \<times> string set \<Rightarrow> (string set \<Rightarrow> exn option \<times> string set)
     \<Rightarrow> exn option \<times> string set" where
  "andThen r stmt = (case r of (Some e, deps) \<Rightarrow> (Some e, deps) | (None, deps) \<Rightarrow> stmt deps)"

definition tryBlock ::
  "(string \<Rightarrow> json option) \<Rightarrow> string \<Rightarrow> string set \<Rightarrow> exn option \<times> string set" where
  "tryBlock JSON_parse content deps =
     (case JSON_parse content of
        None \<Rightarrow> (Some SyntaxError, deps)
      | Some pkg \<Rightarrow>
          andThen (andThen (addKeys pkg ''dependencies'' deps) (addKeys pkg ''devDependencies''))
            (addKeys pkg ''peerDependencies''))"

text \<open>The \<open>catch\<close> block is empty and catches everything; \<open>deps\<close> is returned after it.\<close>

definition parseDepsFromPackageJson ::
  "(string \<Rightarrow> json option) \<Rightarrow> string \<Rightarrow> exn + string set" where
  "parseDepsFromPackageJson JSON_parse content =
     (case tryBlock JSON_parse content {} of
        (Some e, deps) \<Rightarrow> Inr deps
      | (None, deps) \<Rightarrow> Inr deps)"

text \<open>
  \<open>parseDepsFromRequirements\<close>: \<open>trimmed.split(/[>=<!~\s\[]/)[0].toLowerCase()\<close> raises a
  \<open>TypeError\<close> when the split has no first piece.
\<close>

definition versionSeparator :: regex where
  "versionSeparator = Cls (\<lambda>c. c \<in> set ''>=<!~['' \<or> isWhiteSpace c)"

fun requirementsLoop :: "string list \<Rightarrow> string set \<Rightarrow> exn + string set" where
  "requirementsLoop [] deps = Inr deps"
| "requirementsLoop (line # lines) deps =
     (let trimmed = trim line
      in if trimmed \<noteq> [] \<and> \<not> startsWith trimmed ''#'' \<and> \<not> startsWith trimmed ''-''
         then (case regexSplit versionSeparator trimmed of
                 [] \<Rightarrow> Inl TypeError
               | first # _ \<Rightarrow>
                   (let n = toLowerCase first
                    in if n \<noteq> [] then requirementsLoop lines (insert n deps)
                       else requirementsLoop lines deps))
         else requirementsLoop lines deps)"

definition parseDepsFromRequirements :: "string \<Rightarrow> exn + string set" where
  "parseDepsFromRequirements content = requirementsLoop (splitChar newline content) {}"

text \<open>
  \<open>parseDepsFromCargoToml\<close> has no operation that can raise (the group of its pattern
  takes part in every match): it is a total function to sets.
\<close>

definition depSectionHeader :: regex where
  "depSectionHeader = seqs
     [Bos, Lit CHR ''['', Opt (str ''dev-''), str ''dependencies'',
      Opt (Seq (Lit CHR ''.'') (Plus (noneOf '']''))), Lit CHR '']'']"

definition depDeclaration :: regex where
  "depDeclaration = seqs
     [Bos,
      Cap (Seq (Cls (\<lambda>c. isLower c \<or> isUpper c \<or> c = CHR ''_''))
               (Star (Cls (\<lambda>c. isWordChar c \<or> c = CHR ''-'')))),
      Star ws, Lit CHR ''='']"

fun cargoLoop :: "string list \<Rightarrow> bool \<Rightarrow> string set \<Rightarrow> string set" where
  "cargoLoop [] inDepSection deps = deps"
| "cargoLoop (line # lines) inDepSection deps =
     (let trimmed = trim line
      in if startsWith trimmed ''['' then cargoLoop lines (regexTest depSectionHeader trimmed) deps
         else if inDepSection
         then (case search depDeclaration None trimmed of
                 Some (before, m, Some d, after) \<Rightarrow> cargoLoop lines inDepSection (insert d deps)
               | _ \<Rightarrow> cargoLoop lines inDepSection deps)
         else cargoLoop lines inDepSection deps)"

definition parseDepsFromCargoToml :: "string \<Rightarrow> string set" where
  "parseDepsFromCargoToml content = cargoLoop (splitChar newline content) False {}"

text \<open>Configurations used as concrete inputs below.\<close>

definition degenerateConfig :: SlopGateConfig where
  "degenerateConfig = DEFAULT_CONFIG \<lparr> thresholds := \<lparr> warn = 30, flag = 80, block = 80 \<rparr> \<rparr>"

definition velocityOffConfig :: SlopGateConfig where
  "velocityOffConfig = DEFAULT_CONFIG \<lparr> weights := (weights DEFAULT_CONFIG) \<lparr> velocity := 0 \<rparr> \<rparr>"

text \<open>Pull requests used as concrete inputs below, built as the tests build them.\<close>

definition makePRData :: PullRequestData where
  "makePRData =
     \<lparr> PullRequestData.number = 1,
       title = ''Fix authentication bug in login flow'',
       body = ''This fixes the login issue by correcting the token validation logic.'',
       user = \<lparr> login = ''contributor'', user_type = ''User'',
                created_at = ''2025-01-01T00:00:00.000Z'' \<rparr>,
       created_at = ''2026-01-01T00:00:00.000Z'',
       changed_files = 3,
       additions = 50,
       deletions = 20,
       head = \<lparr> Head.ref = ''fix-login'', sha = ''abc123'' \<rparr>,
       base = \<lparr> Base.ref = ''main'' \<rparr> \<rparr>"

definition makePR :: "rat \<Rightarrow> string \<Rightarrow> ContributorPR" where
  "makePR n t =
     \<lparr> ContributorPR.number = n,
       title = t,
       body = Some ''A fix for a bug'',
       state = ''open'',
       created_at = ''2026-01-01T00:00:00.000Z'',
       closed_at = None,
       merged_at = None,
       repository_url = ''https://api.github.com/repos/owner/repo'' \<rparr>"

definition shotgunPR :: PullRequestData where
  "shotgunPR = makePRData \<lparr> PullRequestData.title := ''Fix bug in code'' \<rparr>"

definition shotgunPRs :: "ContributorPR list" where
  "shotgunPRs = [makePR 1 ''Fix bug in code'', makePR 2 ''  FIX bug in code '',
                 makePR 3 ''Add dark mode toggle'']"

definition largePR :: PullRequestData where
  "largePR = makePRData \<lparr> PullRequestData.additions := 1500, PullRequestData.deletions := 0,
     PullRequestData.body := replicate 60 (CHR ''x'') \<rparr>"

definition mediumPR :: PullRequestData where
  "mediumPR = makePRData \<lparr> PullRequestData.additions := 600, PullRequestData.deletions := 200,
     PullRequestData.body := replicate 60 (CHR ''x'') \<rparr>"

text \<open>Files, patches and manifests used as concrete inputs below.\<close>

definition makeFile :: "string \<Rightarrow> PRFile" where
  "makeFile p = \<lparr> filename = ''src/app.ts'', status = ''modified'', additions = 10,
     deletions = 5, changes = 15, patch = Some p \<rparr>"

definition lodashLine :: string where
  "lodashLine = ''+import lodash from '' @ [squote] @ ''lodash'' @ [squote]"

definition namedLine :: string where
  "namedLine = ''+import { x } from '' @ [squote] @ ''lodash'' @ [squote]"

definition sixImports :: "string \<Rightarrow> string" where
  "sixImports unknownLine = join [newline]
     [''@@ -1,3 +1,9 @@'',
      ''+import { a } from '' @ [squote] @ ''express'' @ [squote],
      ''+import { b } from '' @ [squote] @ ''zod'' @ [squote],
      ''+import { c } from '' @ [squote] @ ''react'' @ [squote],
      ''+import { d } from '' @ [squote] @ ''fs'' @ [squote],
      ''+import { e } from '' @ [squote] @ ''path'' @ [squote],
      unknownLine]"

definition knownDeps :: "string set" where
  "knownDeps = {''express'', ''zod'', ''react''}"

definition repeatedBlocks :: "nat \<Rightarrow> nat \<Rightarrow> string \<Rightarrow> string" where
  "repeatedBlocks blocks n line = join [newline]
     (concat (replicate blocks (''@@ -1,1 +1,9 @@'' # replicate n line)))"

definition sampleParse :: "string \<Rightarrow> json option" where
  "sampleParse s = (if s = ''null'' then Some JNull else None)"

definition sampleToml :: string where
  "sampleToml = join [newline] [''[package]'', ''name = demo'', ''serde = 1'']"

definition sampleChecks :: "CheckResult list" where
  "sampleChecks = [\<lparr> name = ''velocity'', score = 100 \<rparr>, \<lparr> name = ''placeholder'', score = 40 \<rparr>,
                   \<lparr> name = ''unknown_check'', score = 50 \<rparr>]"

section \<open>Properties\<close>

subsection \<open>The aggregator\<close>

lemma scoreLoop_totals:
  "scoreLoop config cs (wcs, tw, tws) =
     (wcs @ map (weighted config) (included config cs),
      tw + (\<Sum>c\<leftarrow>included config cs. resolveWeight config (name c)),
      tws + (\<Sum>c\<leftarrow>included config cs. (score c * resolveWeight config (name c)) / 100))"
  by (induction cs arbitrary: wcs tw tws)
     (simp_all add: included_def weighted_def Let_def algebra_simps)

lemma finalScore_eq:
  "finalScore (calculateScore cs config) =
     (let inc = included config cs;
          totalWeight = (\<Sum>c\<leftarrow>inc. resolveWeight config (name c));
          totalWeightedScore = (\<Sum>c\<leftarrow>inc. (score c * resolveWeight config (name c)) / 100)
      in if totalWeight > 0 then Math_round ((totalWeightedScore / totalWeight) * 100) else 0)"
  by (simp add: calculateScore_def scoreLoop_totals Let_def)

lemma weightedChecks_set:
  "set (weightedChecks (calculateScore cs config)) = weighted config ` set (included config cs)"
  by (simp add: calculateScore_def scoreLoop_totals Let_def)





text \<open>
  Claim C3, as amended. \<open>getVerdict\<close> returns \<open>block\<close> when \<open>score \<ge> block\<close>, else \<open>flag\<close>
  when \<open>score \<ge> flag\<close>, else \<open>warn\<close> when \<open>score \<ge> warn\<close>, else \<open>pass\<close>. With
  \<open>warn \<le> flag \<le> block\<close> each verdict is one band of scores, and a score equal to a
  threshold gets the verdict of the highest threshold it equals: \<open>score = flag\<close> gives
  \<open>flag\<close> when \<open>flag < block\<close>, and \<open>block\<close> when \<open>flag = block\<close>.
\<close>

theorem getVerdict_bands:
  "getVerdict s config =
     (if s \<ge> block (thresholds config) then Block
      else if s \<ge> flag (thresholds config) then Flag
      else if s \<ge> warn (thresholds config) then Warn
      else Pass)
   \<and> (warn (thresholds config) \<le> flag (thresholds config)
        \<and> flag (thresholds config) \<le> block (thresholds config) \<longrightarrow>
        (getVerdict s config = Block \<longleftrightarrow> block (thresholds config) \<le> s)
      \<and> (getVerdict s config = Flag \<longleftrightarrow> flag (thresholds config) \<le> s \<and> s < block (thresholds config))
      \<and> (getVerdict s config = Warn \<longleftrightarrow> warn (thresholds config) \<le> s \<and> s < flag (thresholds config))
      \<and> (getVerdict s config = Pass \<longleftrightarrow> s < warn (thresholds config))
      \<and> (s = block (thresholds config) \<longrightarrow> getVerdict s config = Block)
      \<and> (s = flag (thresholds config) \<and> flag (thresholds config) < block (thresholds config)
            \<longrightarrow> getVerdict s config = Flag)
      \<and> (s = flag (thresholds config) \<and> flag (thresholds config) = block (thresholds config)
            \<longrightarrow> getVerdict s config = Block)
      \<and> (s = warn (thresholds config) \<and> warn (thresholds config) < flag (thresholds config)
            \<longrightarrow> getVerdict s config = Warn))"
  by (auto simp add: getVerdict_def)

theorem getVerdict_bands_witness:
  "getVerdict 60 DEFAULT_CONFIG = Flag \<and> getVerdict 80 DEFAULT_CONFIG = Block
   \<and> getVerdict 30 DEFAULT_CONFIG = Warn \<and> getVerdict 29 DEFAULT_CONFIG = Pass"
  using getVerdict_bands [of 60 DEFAULT_CONFIG] getVerdict_bands [of 80 DEFAULT_CONFIG]
    getVerdict_bands [of 30 DEFAULT_CONFIG] getVerdict_bands [of 29 DEFAULT_CONFIG]
  by (simp add: DEFAULT_CONFIG_def)

text \<open>
  Claim C3 as stated fails where two thresholds coincide: with \<open>warn = 30\<close> and
  \<open>flag = block = 80\<close> the thresholds are in order, and the score 80, equal to \<open>flag\<close>,
  gets the verdict \<open>block\<close>, not \<open>flag\<close>.
\<close>

theorem getVerdict_flag_counterexample:
  "warn (thresholds degenerateConfig) \<le> flag (thresholds degenerateConfig)
   \<and> flag (thresholds degenerateConfig) \<le> block (thresholds degenerateConfig)
   \<and> getVerdict (flag (thresholds degenerateConfig)) degenerateConfig = Block
   \<and> getVerdict (flag (thresholds degenerateConfig)) degenerateConfig \<noteq> Flag"
  by (simp add: getVerdict_def degenerateConfig_def DEFAULT_CONFIG_def)

lemma included_remove1:
  "resolveWeight config (name c) = 0 \<Longrightarrow> included config (remove1 c cs) = included config cs"
  by (induction cs) (auto simp add: included_def)

lemma included_removeAll:
  "resolveWeight config (name c) = 0 \<Longrightarrow> included config (removeAll c cs) = included config cs"
  by (induction cs) (auto simp add: included_def)

text \<open>
  Claim C4. For a check \<open>c\<close> of the list whose resolved weight is 0: no entry of the
  returned \<open>weightedChecks\<close> carries the name of \<open>c\<close>, so none is \<open>c\<close> with a weight added;
  and the final score is the final score of the list without \<open>c\<close> (one occurrence or all
  of them removed), under the same configuration.
\<close>

theorem disabled_check_excluded:
  assumes "c \<in> set cs" and "resolveWeight config (name c) = 0"
  shows "(\<forall>wc \<in> set (weightedChecks (calculateScore cs config)). name wc \<noteq> name c)
       \<and> c \<notin> CheckResult.truncate ` set (weightedChecks (calculateScore cs config))
       \<and> finalScore (calculateScore cs config) = finalScore (calculateScore (remove1 c cs) config)
       \<and> finalScore (calculateScore cs config) = finalScore (calculateScore (removeAll c cs) config)"
proof -
  have names: "\<forall>wc \<in> set (weightedChecks (calculateScore cs config)). name wc \<noteq> name c"
    using assms(2) by (auto simp add: weightedChecks_set included_def weighted_def)
  have "name (CheckResult.truncate wc) = name wc" for wc :: WeightedCheck
    by (simp add: CheckResult.truncate_def)
  with names have "c \<notin> CheckResult.truncate ` set (weightedChecks (calculateScore cs config))"
    by force
  with names show ?thesis
    using assms(2) by (simp add: finalScore_eq included_remove1 included_removeAll)
qed

theorem disabled_check_excluded_witness:
  "\<lparr> name = ''velocity'', score = 100 \<rparr>
     \<in> set [\<lparr> name = ''velocity'', score = 100 \<rparr>, \<lparr> name = ''placeholder'', score = 40 \<rparr>]
   \<and> resolveWeight velocityOffConfig ''velocity'' = 0
   \<and> \<lparr> name = ''velocity'', score = 100 \<rparr> \<notin> CheckResult.truncate `
        set (weightedChecks (calculateScore
          [\<lparr> name = ''velocity'', score = 100 \<rparr>, \<lparr> name = ''placeholder'', score = 40 \<rparr>]
          velocityOffConfig))
   \<and> finalScore (calculateScore
          [\<lparr> name = ''velocity'', score = 100 \<rparr>, \<lparr> name = ''placeholder'', score = 40 \<rparr>]
          velocityOffConfig)
       = finalScore (calculateScore [\<lparr> name = ''placeholder'', score = 40 \<rparr>] velocityOffConfig)"
proof -
  have w0: "resolveWeight velocityOffConfig ''velocity'' = 0"
    by (simp add: resolveWeight_def CHECK_WEIGHT_MAP_def velocityOffConfig_def)
  show ?thesis
    using disabled_check_excluded [of "\<lparr> name = ''velocity'', score = 100 \<rparr>"
        "[\<lparr> name = ''velocity'', score = 100 \<rparr>, \<lparr> name = ''placeholder'', score = 40 \<rparr>]"
        velocityOffConfig] w0
    by simp
qed

lemma sum_list_nonneg_rat: "(\<And>x. x \<in> set xs \<Longrightarrow> 0 \<le> f x) \<Longrightarrow> (0::rat) \<le> (\<Sum>x\<leftarrow>xs. f x)"
  by (induction xs) auto

lemma resolveWeight_range:
  assumes "weightsInRange (weights config)"
  shows "0 \<le> resolveWeight config n \<and> resolveWeight config n \<le> 100"
proof (cases "CHECK_WEIGHT_MAP n")
  case None
  then show ?thesis by (simp add: resolveWeight_def)
next
  case (Some key)
  then have "key \<in> set weightKeys"
    by (auto simp add: CHECK_WEIGHT_MAP_def weightKeys_def split: if_splits)
  with assms have "0 \<le> key (weights config) \<and> key (weights config) \<le> 100"
    by (simp add: weightsInRange_def list_all_iff)
  with Some show ?thesis by (simp add: resolveWeight_def)
qed

lemma Math_round_range:
  assumes "0 \<le> x" and "x \<le> 100"
  shows "0 \<le> Math_round x \<and> Math_round x \<le> 100"
proof -
  have "0 \<le> \<lfloor>x + 1 / 2\<rfloor>" using assms(1) by simp
  moreover have "\<lfloor>x + 1 / 2\<rfloor> \<le> 100"
  proof -
    have "x + 1 / 2 < 101" using assms(2) by simp
    then have "\<lfloor>x + 1 / 2\<rfloor> < 101" by (simp add: floor_less_iff)
    then show ?thesis by simp
  qed
  ultimately show ?thesis by (simp add: Math_round_def)
qed

lemma calculateScore_bounded:
  assumes scores: "\<forall>c \<in> set cs. 0 \<le> score c \<and> score c \<le> 100"
    and ws: "weightsInRange (weights config)"
  shows "0 \<le> finalScore (calculateScore cs config) \<and> finalScore (calculateScore cs config) \<le> 100"
proof -
  define inc where "inc = included config cs"
  define tw where "tw = (\<Sum>c\<leftarrow>inc. resolveWeight config (name c))"
  define tws where "tws = (\<Sum>c\<leftarrow>inc. (score c * resolveWeight config (name c)) / 100)"
  have fs: "finalScore (calculateScore cs config) =
      (if tw > 0 then Math_round ((tws / tw) * 100) else 0)"
    by (simp add: finalScore_eq Let_def inc_def tw_def tws_def)
  have sub: "set inc \<subseteq> set cs" by (auto simp add: inc_def included_def)
  have lo: "0 \<le> tws"
    unfolding tws_def
  proof (rule sum_list_nonneg_rat)
    fix c assume "c \<in> set inc"
    with sub scores have "0 \<le> score c" by auto
    moreover have "0 \<le> resolveWeight config (name c)" using resolveWeight_range [OF ws] by simp
    ultimately show "0 \<le> (score c * resolveWeight config (name c)) / 100" by simp
  qed
  have hi: "tws \<le> tw"
    unfolding tws_def tw_def
  proof (rule sum_list_mono)
    fix c assume "c \<in> set inc"
    with sub scores have "score c \<le> 100" by auto
    moreover have "0 \<le> resolveWeight config (name c)" using resolveWeight_range [OF ws] by simp
    ultimately have "score c * resolveWeight config (name c) \<le> 100 * resolveWeight config (name c)"
      by (rule mult_right_mono)
    then show "(score c * resolveWeight config (name c)) / 100 \<le> resolveWeight config (name c)"
      by simp
  qed
  show ?thesis
  proof (cases "tw > 0")
    case False
    then show ?thesis by (simp add: fs)
  next
    case True
    have "0 \<le> (tws / tw) * 100" using lo True by simp
    moreover have "(tws / tw) * 100 \<le> 100" using hi True by (simp add: divide_le_eq)
    ultimately show ?thesis using True Math_round_range by (simp add: fs)
  qed
qed

subsection \<open>The similarity of two texts\<close>

lemma editDistance_Nil2: "editDistance xs [] = length xs"
  by (cases xs) simp_all

lemma editDistance_sym: "editDistance xs ys = editDistance ys xs"
proof (induction xs ys rule: editDistance.induct)
  case (1 ys)
  then show ?case by (simp add: editDistance_Nil2)
next
  case (2 x xs)
  then show ?case by simp
next
  case (3 x xs y ys)
  then show ?case by (simp add: min.commute min.left_commute eq_commute [of x y])
qed

lemma rowFrom_hd: "rowFrom rp rb ys = editDistance rp rb # tl (rowFrom rp rb ys)"
  by (cases ys) simp_all

lemma fillRow_rowFrom:
  "fillRow x ys (rowFrom rp rb ys) (editDistance (x # rp) rb) = tl (rowFrom (x # rp) rb ys)"
proof (induction ys arbitrary: rb)
  case Nil
  then show ?case by simp
next
  case (Cons y ys)
  obtain ups where ups: "rowFrom rp (y # rb) ys = editDistance rp (y # rb) # ups"
    using rowFrom_hd by blast
  have hd': "rowFrom (x # rp) (y # rb) ys
      = editDistance (x # rp) (y # rb) # tl (rowFrom (x # rp) (y # rb) ys)"
    by (rule rowFrom_hd)
  have "fillRow x (y # ys) (rowFrom rp rb (y # ys)) (editDistance (x # rp) rb)
      = editDistance (x # rp) (y # rb)
        # fillRow x ys (rowFrom rp (y # rb) ys) (editDistance (x # rp) (y # rb))"
    by (simp add: ups Let_def)
  also have "\<dots> = editDistance (x # rp) (y # rb) # tl (rowFrom (x # rp) (y # rb) ys)"
    by (simp only: Cons.IH)
  also have "\<dots> = rowFrom (x # rp) (y # rb) ys" using hd' by simp
  finally show ?case by simp
qed

lemma row_step: "Suc (length rp) # fillRow x b (rowFrom rp [] b) (Suc (length rp)) = rowFrom (x # rp) [] b"
proof -
  have "editDistance (x # rp) [] = Suc (length rp)" by simp
  then have "fillRow x b (rowFrom rp [] b) (Suc (length rp)) = tl (rowFrom (x # rp) [] b)"
    using fillRow_rowFrom [of x b rp "[]"] by simp
  moreover have "rowFrom (x # rp) [] b = Suc (length rp) # tl (rowFrom (x # rp) [] b)"
    using rowFrom_hd [of "x # rp" "[]" b] by simp
  ultimately show ?thesis by simp
qed

lemma lastRow_rowFrom:
  "lastRow xs b (rowFrom rp [] b) (Suc (length rp)) = rowFrom (rev xs @ rp) [] b"
proof (induction xs arbitrary: rp)
  case Nil
  then show ?case by simp
next
  case (Cons x xs)
  have "lastRow (x # xs) b (rowFrom rp [] b) (Suc (length rp))
      = lastRow xs b (rowFrom (x # rp) [] b) (Suc (length (x # rp)))"
    by (simp add: row_step)
  also have "\<dots> = rowFrom (rev xs @ x # rp) [] b" by (rule Cons.IH)
  finally show ?case by simp
qed

lemma rowFrom_Nil: "rowFrom [] rb ys = [length rb ..< Suc (length rb + length ys)]"
proof (induction ys arbitrary: rb)
  case Nil
  then show ?case by simp
next
  case (Cons y ys)
  have "[length rb ..< Suc (length rb + length (y # ys))]
      = length rb # [Suc (length rb) ..< Suc (length rb + length (y # ys))]"
    by (rule upt_conv_Cons) simp
  moreover have "rowFrom [] (y # rb) ys = [Suc (length rb) ..< Suc (length rb + length (y # ys))]"
    using Cons.IH [of "y # rb"] by simp
  ultimately show ?case by simp
qed

lemma last_rowFrom: "last (rowFrom rp rb ys) = editDistance rp (rev ys @ rb)"
proof (induction ys arbitrary: rb)
  case Nil
  then show ?case by simp
next
  case (Cons y ys)
  have "rowFrom rp (y # rb) ys \<noteq> []" using rowFrom_hd [of rp "y # rb" ys] by auto 
  then show ?case using Cons.IH [of "y # rb"] by simp
qed

lemma levenshteinDistance_editDistance:
  "levenshteinDistance a b = editDistance (rev a) (rev b)"
proof -
  have "lastRow a b [0 ..< Suc (length b)] 1 = rowFrom (rev a) [] b"
    using lastRow_rowFrom [of a b "[]"] rowFrom_Nil [of "[]" b] by simp
  then show ?thesis by (simp add: levenshteinDistance_def last_rowFrom)
qed

lemma levenshteinDistance_sym: "levenshteinDistance a b = levenshteinDistance b a"
  by (simp add: levenshteinDistance_editDistance editDistance_sym [of "rev a"])

lemma jaccardSimilarity_sym: "jaccardSimilarity a b = jaccardSimilarity b a"
proof -
  have "{w \<in> A. w \<in> B} = {w \<in> B. w \<in> A}" for A B :: "string set" by auto
  then show ?thesis by (simp add: jaccardSimilarity_def Let_def add.commute)
qed

text \<open>
  Claim C5. \<open>levenshteinSimilarity\<close>, with its fallback to \<open>jaccardSimilarity\<close> for a text
  longer than 500 code units, gives 1 for two equal strings, 0 for the empty string and a
  non-empty one, and the same value when its arguments are exchanged.
\<close>

theorem similarity_properties:
  "levenshteinSimilarity s s = 1
   \<and> (x \<noteq> [] \<longrightarrow> levenshteinSimilarity [] x = 0)
   \<and> levenshteinSimilarity a b = levenshteinSimilarity b a"
proof -
  have "levenshteinSimilarity a b = levenshteinSimilarity b a"
    by (auto simp add: levenshteinSimilarity_def levenshteinDistance_sym [of a b]
        jaccardSimilarity_sym [of a b] max.commute)
  then show ?thesis by (auto simp add: levenshteinSimilarity_def)
qed

theorem similarity_properties_witness:
  "levenshteinSimilarity ''hello'' ''hello'' = 1
   \<and> levenshteinSimilarity [] ''hello'' = 0
   \<and> levenshteinSimilarity ''kitten'' ''sitting'' = levenshteinSimilarity ''sitting'' ''kitten''"
  using similarity_properties [of "''hello''" "''hello''" "''kitten''" "''sitting''"]
  by simp

subsection \<open>The shotgun check\<close>

lemma shotgunLoop_counts:
  "shotgunLoop (trim (toLowerCase (PullRequestData.title cur)))
       (trim (toLowerCase (PullRequestData.body cur))) prs (tm, bm)
     = (tm + length (filter (titleMatch cur) prs), bm + length (filter (bodyMatch cur) prs))"
  by (induction prs arbitrary: tm bm) (simp_all add: titleMatch_def bodyMatch_def Let_def)

text \<open>
  Claim C6. \<open>shotgunCheck\<close> leaves out exactly the entries with the number of the current
  pull request. With no entry left the score is 0. Otherwise, with the title and body
  matches counted over the entries left, it is 0 when both counts are 0, 90 when there
  are at least 3 title matches or at least 2 body matches, else 60 when there are at
  least 2 title matches or more than half of the entries match in title, and 25 otherwise.
\<close>

theorem shotgunCheck_score:
  "score (shotgunCheck currentPR publicPRs) =
     (let others = filter (\<lambda>pr. ContributorPR.number pr \<noteq> PullRequestData.number currentPR) publicPRs;
          titleMatches = length (filter (titleMatch currentPR) others);
          bodyMatches = length (filter (bodyMatch currentPR) others);
          otherCount = length others
      in if otherCount = 0 then 0
         else if titleMatches = 0 \<and> bodyMatches = 0 then 0
         else if titleMatches \<ge> 3 \<or> bodyMatches \<ge> 2 then 90
         else if titleMatches \<ge> 2 \<or> (of_nat titleMatches :: rat) / of_nat otherCount > 1 / 2 then 60
         else 25)"
  by (simp add: shotgunCheck_def shotgunLoop_counts Let_def)

theorem shotgunCheck_score_witness: "score (shotgunCheck shotgunPR shotgunPRs) = 25"
  unfolding shotgunCheck_score by code_simp

subsection \<open>The oversized diff check\<close>

text \<open>
  Claim C7, as amended. \<open>oversizedDiffCheck\<close> returns the score 40 exactly when
  \<open>totalChanges = additions + deletions\<close> is above 500 and the length of the trimmed
  description is at least 50 and below \<open>min(totalChanges * 0.1, 200)\<close>. No upper bound on
  \<open>totalChanges\<close> is part of the condition.
\<close>

theorem oversized_40_iff:
  "score (oversizedDiffCheck pr) = 40 \<longleftrightarrow>
     (let totalChanges = PullRequestData.additions pr + PullRequestData.deletions pr;
          descriptionLength = (of_nat (length (trim (PullRequestData.body pr))) :: rat)
      in totalChanges > 500 \<and> 50 \<le> descriptionLength
         \<and> descriptionLength < min (totalChanges * (1 / 10)) 200)"
  by (auto simp add: oversizedDiffCheck_def Let_def)

theorem oversized_40_iff_witness:
  "score (oversizedDiffCheck mediumPR) = 40"
  unfolding oversized_40_iff by code_simp

text \<open>
  Claim C7 as stated fails above 1000 changed lines: with 1500 additions, no deletion and
  a description of 60 characters none of the three branches for a description under 50
  characters applies, and \<open>60 < min(150, 200)\<close> gives the score 40.
\<close>

theorem oversized_large_counterexample:
  "PullRequestData.additions largePR + PullRequestData.deletions largePR > 1000
   \<and> score (oversizedDiffCheck largePR) = 40"
  by code_simp

subsection \<open>The copy-paste check\<close>

text \<open>
  Claim C8, as amended. The score of \<open>copyPasteCheck\<close> is a function of the number of
  duplicate pairs of blocks and of the total of duplicated lines: 0 for no duplicate, 20
  for exactly 1 duplicate with fewer than 15 duplicated lines, 50 for 2 or 3 duplicates
  and for 1 duplicate with 15 duplicated lines or more, 85 for 4 duplicates or more. So
  the score is 50 exactly when the count is 2 or 3, or is 1 with at least 15 duplicated
  lines.
\<close>

theorem copyPasteCheck_score:
  "score (copyPasteCheck files) =
     (case copyPasteStats files of
        (duplicateCount, duplicatedLines) \<Rightarrow>
          if duplicateCount = 0 then 0
          else if duplicateCount = 1 \<and> duplicatedLines < 15 then 20
          else if duplicateCount \<le> 3 then 50
          else 85)
   \<and> (score (copyPasteCheck files) = 50 \<longleftrightarrow>
        (case copyPasteStats files of
           (duplicateCount, duplicatedLines) \<Rightarrow>
             duplicateCount = 2 \<or> duplicateCount = 3
             \<or> (duplicateCount = 1 \<and> duplicatedLines \<ge> 15)))"
  by (auto simp add: copyPasteCheck_def split: prod.splits)

lemma stats_three_blocks: "copyPasteStats [makeFile (repeatedBlocks 3 5 ''+total+=x[i];'')] = (3, 15)"
  by code_simp

theorem copyPasteCheck_score_witness:
  "score (copyPasteCheck [makeFile (repeatedBlocks 3 5 ''+total+=x[i];'')]) = 50"
  using copyPasteCheck_score [of "[makeFile (repeatedBlocks 3 5 ''+total+=x[i];'')]"]
    stats_three_blocks
  by simp

text \<open>
  Claim C8 as stated fails for one large duplicate: two equal blocks of 15 added lines
  are 1 duplicate with 15 duplicated lines, and the score is 50 though the count is
  neither 2 nor 3.
\<close>

lemma stats_two_blocks: "copyPasteStats [makeFile (repeatedBlocks 2 15 ''+a=b'')] = (1, 15)"
  by code_simp

theorem copyPasteCheck_single_counterexample:
  "copyPasteStats [makeFile (repeatedBlocks 2 15 ''+a=b'')] = (1, 15)
   \<and> score (copyPasteCheck [makeFile (repeatedBlocks 2 15 ''+a=b'')]) = 50"
  using stats_two_blocks by (simp add: copyPasteCheck_def)

subsection \<open>The import check\<close>

lemma lodash_added: "addedLinesOf lodashLine = [lodashLine]"
  by code_simp

lemma lodash_matches:
  "map (\<lambda>pattern. map snd (matchAll pattern None lodashLine)) importPatterns
     = [[Some ''lodash''], [], [], [Some ''lodash'']]"
  by code_simp

lemma lodash_loop:
  "importLoop [makeFile lodashLine] {} (0, [])
     = (2, [(''src/app.ts'', ''lodash''), (''src/app.ts'', ''lodash'')])"
  by code_simp

lemma six_default_loop:
  "importLoop [makeFile (sixImports lodashLine)] knownDeps (0, [])
     = (7, [(''src/app.ts'', ''lodash''), (''src/app.ts'', ''lodash'')])"
  by code_simp

lemma six_named_loop:
  "importLoop [makeFile (sixImports namedLine)] knownDeps (0, [])
     = (6, [(''src/app.ts'', ''lodash'')])"
  by code_simp

text \<open>
  Claim C10. The patch with the single added line \<open>+import lodash from 'lodash'\<close>
  has one import statement, and \<open>hallucinatedImportCheck\<close> counts it twice: the line
  matches the first pattern (\<open>from '...'\<close>) and the fourth (\<open>import X\<close>), so
  \<open>totalImports\<close> is 2 and the module is pushed twice. The total counts matches, not
  statements: among six import lines with one unknown module, the unknown default import
  makes 2 suspicious entries out of 7 and the score 55, where the same module imported
  by name makes 1 out of 6 and the score 25.
\<close>

theorem import_counted_twice:
  "addedLinesOf lodashLine = [lodashLine]
   \<and> map (\<lambda>pattern. map snd (matchAll pattern None lodashLine)) importPatterns
       = [[Some ''lodash''], [], [], [Some ''lodash'']]
   \<and> importLoop [makeFile lodashLine] {} (0, [])
       = (2, [(''src/app.ts'', ''lodash''), (''src/app.ts'', ''lodash'')])
   \<and> score (hallucinatedImportCheck [makeFile lodashLine] {}) = 90
   \<and> importLoop [makeFile (sixImports lodashLine)] knownDeps (0, [])
       = (7, [(''src/app.ts'', ''lodash''), (''src/app.ts'', ''lodash'')])
   \<and> score (hallucinatedImportCheck [makeFile (sixImports lodashLine)] knownDeps) = 55
   \<and> importLoop [makeFile (sixImports namedLine)] knownDeps (0, [])
       = (6, [(''src/app.ts'', ''lodash'')])
   \<and> score (hallucinatedImportCheck [makeFile (sixImports namedLine)] knownDeps) = 25"
proof -
  have "score (hallucinatedImportCheck [makeFile lodashLine] {}) = 90"
    unfolding hallucinatedImportCheck_def lodash_loop by simp
  moreover have "score (hallucinatedImportCheck [makeFile (sixImports lodashLine)] knownDeps) = 55"
    unfolding hallucinatedImportCheck_def six_default_loop by simp
  moreover have "score (hallucinatedImportCheck [makeFile (sixImports namedLine)] knownDeps) = 25"
    unfolding hallucinatedImportCheck_def six_named_loop by simp
  ultimately show ?thesis
    using lodash_added lodash_matches lodash_loop six_default_loop six_named_loop
    by (simp only: simp_thms)
qed

subsection \<open>The dependency parsers\<close>

lemma splitLoop_nonempty: "splitLoop r piece prev rest \<noteq> []"
proof (induction "length rest" arbitrary: piece prev rest rule: less_induct)
  case less
  have ih: "splitLoop r piece' prev' rest' \<noteq> []" if "length rest' < length rest"
    for piece' prev' rest'
    using less that by blast
  show ?case
  proof (cases rest)
    case Nil
    then show ?thesis by (subst splitLoop.simps) simp
  next
    case (Cons x xs)
    then have "splitLoop r p' (Some x) xs \<noteq> []" for p'
      using ih [of xs p' "Some x"] by simp
    with Cons ih show ?thesis
      by (subst splitLoop.simps) (simp split: list.splits prod.splits)
  qed
qed

lemma regexSplit_nonempty: "s \<noteq> [] \<Longrightarrow> regexSplit r s \<noteq> []"
  by (simp add: regexSplit_def splitLoop_nonempty)

lemma requirementsLoop_total: "\<exists>S. requirementsLoop lines deps = Inr S"
proof (induction lines arbitrary: deps)
  case Nil
  then show ?case by simp
next
  case (Cons line lines)
  show ?case
  proof (cases "trim line \<noteq> [] \<and> \<not> startsWith (trim line) ''#'' \<and> \<not> startsWith (trim line) ''-''")
    case False
    then show ?thesis using Cons.IH [of deps] by (auto simp add: Let_def)
  next
    case True
    then obtain first pieces where sp: "regexSplit versionSeparator (trim line) = first # pieces"
      using regexSplit_nonempty [of "trim line" versionSeparator] by (cases "regexSplit versionSeparator (trim line)") auto
    show ?thesis
      using True sp Cons.IH [of deps] Cons.IH [of "insert (toLowerCase first) deps"]
      by (simp add: Let_def)
  qed
qed

lemma cargoLoop_no_section:
  "\<forall>line \<in> set lines. \<not> regexTest depSectionHeader (trim line)
     \<Longrightarrow> cargoLoop lines False deps = deps"
  by (induction lines) (simp_all add: Let_def)

lemma packageJson_total: "\<exists>S. parseDepsFromPackageJson JSON_parse content = Inr S"
  by (simp add: parseDepsFromPackageJson_def split: prod.splits option.splits)

lemma packageJson_malformed:
  "JSON_parse content = None \<Longrightarrow> parseDepsFromPackageJson JSON_parse content = Inr {}"
  by (simp add: parseDepsFromPackageJson_def tryBlock_def)

lemma packageJson_null:
  "JSON_parse content = Some JNull \<Longrightarrow> parseDepsFromPackageJson JSON_parse content = Inr {}"
  by (simp add: parseDepsFromPackageJson_def tryBlock_def addKeys_def getProperty_def andThen_def)

text \<open>
  Claim C9. For every input, no exception leaves a parser: the parser of \<open>package.json\<close>
  returns a set whatever \<open>JSON.parse\<close> does, the empty set when \<open>JSON.parse\<close> throws
  and when the text is \<open>null\<close>; the parser of \<open>requirements.txt\<close> returns a set, the
  empty one for the empty text (its split always has a first piece); the parser of
  \<open>Cargo.toml\<close> is total, and returns the empty set when no line is the header of a
  dependency section.
\<close>

theorem parsers_never_throw:
  "(\<exists>S. parseDepsFromPackageJson JSON_parse content = Inr S)
   \<and> (JSON_parse content = None \<longrightarrow> parseDepsFromPackageJson JSON_parse content = Inr {})
   \<and> (JSON_parse content = Some JNull \<longrightarrow> parseDepsFromPackageJson JSON_parse content = Inr {})
   \<and> (\<exists>S. parseDepsFromRequirements requirements = Inr S)
   \<and> parseDepsFromRequirements [] = Inr {}
   \<and> ((\<forall>line \<in> set (splitChar newline toml). \<not> regexTest depSectionHeader (trim line))
        \<longrightarrow> parseDepsFromCargoToml toml = {})"
  using packageJson_total [of JSON_parse content] packageJson_malformed [of JSON_parse content]
    packageJson_null [of JSON_parse content]
    requirementsLoop_total [of "splitChar newline requirements" "{}"]
    cargoLoop_no_section [of "splitChar newline toml" "{}"]
  by (simp add: parseDepsFromRequirements_def parseDepsFromCargoToml_def trim_def)

lemma sampleToml_no_section:
  "\<forall>line \<in> set (splitChar newline sampleToml). \<not> regexTest depSectionHeader (trim line)"
  by code_simp

theorem parsers_never_throw_witness:
  "parseDepsFromPackageJson sampleParse ''{ not json'' = Inr {}
   \<and> parseDepsFromPackageJson sampleParse ''null'' = Inr {}
   \<and> parseDepsFromRequirements [] = Inr {}
   \<and> parseDepsFromCargoToml sampleToml = {}"
  using parsers_never_throw [of sampleParse "''{ not json''" "[]" sampleToml]
    parsers_never_throw [of sampleParse "''null''" "[]" sampleToml]
    sampleToml_no_section
  by (simp add: sampleParse_def)

subsection \<open>The bounds of the scores\<close>

lemma velocityCheck_range: "scoreInRange (velocityCheck parseDate now recentPRs)"
  by (simp add: velocityCheck_def scoreInRange_def Let_def)

lemma abandonmentCheck_range: "scoreInRange (abandonmentCheck stats)"
  by (simp add: abandonmentCheck_def scoreInRange_def)

lemma shotgunCheck_range: "scoreInRange (shotgunCheck currentPR publicPRs)"
  by (simp add: shotgunCheck_def scoreInRange_def Let_def split: prod.splits)

lemma newAccountCheck_range: "scoreInRange (newAccountCheck parseDate now pr recentRepoPRs)"
  by (simp add: newAccountCheck_def scoreInRange_def Let_def)

lemma placeholderCheck_range: "scoreInRange (placeholderCheck files)"
  by (simp add: placeholderCheck_def scoreInRange_def Let_def split: prod.splits)

lemma hallucinatedImportCheck_range: "scoreInRange (hallucinatedImportCheck files projectDeps)"
  by (simp add: hallucinatedImportCheck_def scoreInRange_def Let_def split: prod.splits)

lemma docstringInflationCheck_range: "scoreInRange (docstringInflationCheck files)"
  by (simp add: docstringInflationCheck_def scoreInRange_def Let_def split: prod.splits)

lemma copyPasteCheck_range: "scoreInRange (copyPasteCheck files)"
  by (simp add: copyPasteCheck_def scoreInRange_def split: prod.splits)

lemma genericDescriptionCheck_range: "scoreInRange (genericDescriptionCheck pr)"
  by (simp add: genericDescriptionCheck_def scoreInRange_def Let_def)

lemma oversizedDiffCheck_range: "scoreInRange (oversizedDiffCheck pr)"
  by (simp add: oversizedDiffCheck_def scoreInRange_def Let_def)

lemma unrelatedChangesCheck_range: "scoreInRange (unrelatedChangesCheck files)"
  by (simp add: unrelatedChangesCheck_def scoreInRange_def Let_def)

lemma formattingOnlyCheck_range: "scoreInRange (formattingOnlyCheck pr files)"
  by (simp add: formattingOnlyCheck_def scoreInRange_def Let_def split: prod.splits)

text \<open>
  Claim C1. For every list of check results with scores in \<open>[0, 100]\<close> and every
  configuration with weights in \<open>[0, 100]\<close>, the final score of \<open>calculateScore\<close> is in
  \<open>[0, 100]\<close>; and each of the twelve checks returns a score in \<open>[0, 100]\<close> on every input.
\<close>

theorem scores_bounded:
  "((\<forall>c \<in> set cs. 0 \<le> score c \<and> score c \<le> 100) \<and> weightsInRange (weights config)
      \<longrightarrow> 0 \<le> finalScore (calculateScore cs config)
          \<and> finalScore (calculateScore cs config) \<le> 100)
   \<and> scoreInRange (velocityCheck parseDate now recentPRs)
   \<and> scoreInRange (abandonmentCheck stats)
   \<and> scoreInRange (shotgunCheck pr publicPRs)
   \<and> scoreInRange (newAccountCheck parseDate now pr recentRepoPRs)
   \<and> scoreInRange (placeholderCheck files)
   \<and> scoreInRange (hallucinatedImportCheck files projectDeps)
   \<and> scoreInRange (docstringInflationCheck files)
   \<and> scoreInRange (copyPasteCheck files)
   \<and> scoreInRange (genericDescriptionCheck pr)
   \<and> scoreInRange (oversizedDiffCheck pr)
   \<and> scoreInRange (unrelatedChangesCheck files)
   \<and> scoreInRange (formattingOnlyCheck pr files)"
  using calculateScore_bounded [of cs config]
  by (simp only: velocityCheck_range abandonmentCheck_range shotgunCheck_range
      newAccountCheck_range placeholderCheck_range hallucinatedImportCheck_range
      docstringInflationCheck_range copyPasteCheck_range genericDescriptionCheck_range
      oversizedDiffCheck_range unrelatedChangesCheck_range formattingOnlyCheck_range) blast

theorem scores_bounded_witness:
  "0 \<le> finalScore (calculateScore sampleChecks DEFAULT_CONFIG)
   \<and> finalScore (calculateScore sampleChecks DEFAULT_CONFIG) \<le> 100
   \<and> scoreInRange (velocityCheck (\<lambda>s. None) 0 [makePR 2 ''Fix bug in code''])
   \<and> scoreInRange (abandonmentCheck \<lparr> total = 10, abandoned = 4, rate = 40 \<rparr>)
   \<and> scoreInRange (shotgunCheck shotgunPR shotgunPRs)
   \<and> scoreInRange (newAccountCheck (\<lambda>s. None) 0 shotgunPR shotgunPRs)
   \<and> scoreInRange (placeholderCheck [makeFile lodashLine])
   \<and> scoreInRange (hallucinatedImportCheck [makeFile lodashLine] knownDeps)
   \<and> scoreInRange (docstringInflationCheck [makeFile lodashLine])
   \<and> scoreInRange (copyPasteCheck [makeFile lodashLine])
   \<and> scoreInRange (genericDescriptionCheck shotgunPR)
   \<and> scoreInRange (oversizedDiffCheck shotgunPR)
   \<and> scoreInRange (unrelatedChangesCheck [makeFile lodashLine])
   \<and> scoreInRange (formattingOnlyCheck shotgunPR [makeFile lodashLine])"
proof -
  have h: "(\<forall>c \<in> set sampleChecks. 0 \<le> score c \<and> score c \<le> 100)
      \<and> weightsInRange (weights DEFAULT_CONFIG)"
    by (simp add: sampleChecks_def DEFAULT_CONFIG_def weightsInRange_def weightKeys_def)
  show ?thesis
    using scores_bounded [of sampleChecks DEFAULT_CONFIG "\<lambda>s. None" 0
        "[makePR 2 ''Fix bug in code'']" "\<lparr> total = 10, abandoned = 4, rate = 40 \<rparr>"
        shotgunPR shotgunPRs shotgunPRs "[makeFile lodashLine]" knownDeps] h
    by blast
qed


end
